theory Spec2Isabelle
  imports
    Main
    "HOL-Library.Char_ord"
    "HOL-Library.List_Lexorder"
    "HOL-Library.Multiset"
    "HOL-Library.AList"
begin

section \<open>JavaScript strings and \<^verbatim>\<open>JSON.stringify\<close>\<close>

text \<open>
  A JavaScript string is a sequence of UTF-16 code units. It is modelled as a \<^typ>\<open>string\<close>,
  one \<^typ>\<open>char\<close> per code unit, which covers the code units 0 to 255. The order of
  \<^typ>\<open>char\<close> (by code) and the lexicographic order of lists are then the order that
  \<^verbatim>\<open>Array.prototype.sort\<close> uses without a comparator.

  The approval stores use \<^verbatim>\<open>JSON.stringify\<close> of an object literal as the cache key. The
  values that occur are strings, arrays and nested objects; properties are written in the
  order of the literal.
\<close>

datatype json = JStr string | JArr "json list" | JObj "(string \<times> json) list"

definition hexDigit :: "nat \<Rightarrow> char" where
  "hexDigit n = ''0123456789abcdef'' ! n"

definition QuoteJSONChar :: "char \<Rightarrow> string" where
  "QuoteJSONChar c =
     (let n = (of_char c :: nat) in
      if n = 0x08 then [CHR 0x5C, CHR ''b'']
      else if n = 0x09 then [CHR 0x5C, CHR ''t'']
      else if n = 0x0A then [CHR 0x5C, CHR ''n'']
      else if n = 0x0C then [CHR 0x5C, CHR ''f'']
      else if n = 0x0D then [CHR 0x5C, CHR ''r'']
      else if n = 0x22 then [CHR 0x5C, CHR 0x22]
      else if n = 0x5C then [CHR 0x5C, CHR 0x5C]
      else if n < 0x20 then
        [CHR 0x5C, CHR ''u'', CHR ''0'', CHR ''0'', hexDigit (n div 16), hexDigit (n mod 16)]
      else [c])"

definition QuoteJSONString :: "string \<Rightarrow> string" where
  "QuoteJSONString s = [CHR 0x22] @ concat (map QuoteJSONChar s) @ [CHR 0x22]"

fun join :: "string \<Rightarrow> string list \<Rightarrow> string" where
  "join sep [] = []"
| "join sep [x] = x"
| "join sep (x # y # ys) = x @ sep @ join sep (y # ys)"

fun stringify :: "json \<Rightarrow> string" where
  "stringify (JStr s) = QuoteJSONString s"
| "stringify (JArr xs) = ''['' @ join '','' (map stringify xs) @ '']''"
| "stringify (JObj ps) =
     ''{'' @ join '','' (map (\<lambda>(k, v). QuoteJSONString k @ '':'' @ stringify v) ps) @ ''}''"

text \<open>\<^verbatim>\<open>s || ''\<close> for an optional string: \<^verbatim>\<open>undefined\<close> and the empty string are falsy.\<close>

definition orEmpty :: "string option \<Rightarrow> string" where
  "orEmpty s = (case s of None \<Rightarrow> [] | Some v \<Rightarrow> (if v = [] then [] else v))"

definition truthyString :: "string option \<Rightarrow> bool" where
  "truthyString s = (case s of None \<Rightarrow> False | Some v \<Rightarrow> v \<noteq> [])"

text \<open>\<^verbatim>\<open>s.startsWith(p)\<close> and \<^verbatim>\<open>s.substring(n)\<close> for \<open>n\<close> a literal.\<close>

definition startsWith :: "string \<Rightarrow> string \<Rightarrow> bool" where
  "startsWith s p = (take (length p) s = p)"

definition substring :: "string \<Rightarrow> nat \<Rightarrow> string" where
  "substring s n = drop n s"

section \<open>The Codex approval store (CodexMessageEmitter.ts, second part)\<close>

datatype ReviewDecision = Approved | ApprovedForSession | Denied | Abort

text \<open>\<^verbatim>\<open>command: string | string[]\<close>\<close>

datatype ExecCommand = CommandString string | CommandArray "string list"

text \<open>
  \<^verbatim>\<open>ApprovalKey = ExecApprovalKey | PatchApprovalKey\<close>, a union tagged by its \<^verbatim>\<open>type\<close> field;
  \<^verbatim>\<open>cwd\<close> is optional.
\<close>

datatype ApprovalKey =
    ExecApprovalKey ExecCommand "string option"
  | PatchApprovalKey "string list"

fun serializeKey :: "ApprovalKey \<Rightarrow> string" where
  "serializeKey (ExecApprovalKey command cwd) =
     (let commandArray = (case command of CommandArray ts \<Rightarrow> ts | CommandString c \<Rightarrow> [c])
      in stringify (JObj [(''type'', JStr ''exec''),
                          (''command'', JArr (map JStr commandArray)),
                          (''cwd'', JStr (orEmpty cwd))]))"
| "serializeKey (PatchApprovalKey files) =
     (let sortedFiles = sort files
      in stringify (JObj [(''type'', JStr ''patch''),
                          (''files'', JArr (map JStr sortedFiles))]))"

text \<open>
  The store is a JavaScript \<^verbatim>\<open>Map\<close>: an association list in insertion order, in which
  \<^verbatim>\<open>set\<close> on a key that is present replaces the value in place and otherwise appends.
\<close>

type_synonym ApprovalStore = "(string \<times> ReviewDecision) list"

definition get :: "ApprovalKey \<Rightarrow> ApprovalStore \<Rightarrow> ReviewDecision option" where
  "get key store = map_of store (serializeKey key)"

definition put :: "ApprovalKey \<Rightarrow> ReviewDecision \<Rightarrow> ApprovalStore \<Rightarrow> ApprovalStore" where
  "put key decision store =
     (if decision = ApprovedForSession \<or> decision = Abort
      then AList.update (serializeKey key) decision store
      else store)"

definition isRejectedForSession :: "ApprovalKey \<Rightarrow> ApprovalStore \<Rightarrow> bool" where
  "isRejectedForSession key store = (get key store = Some Abort)"

definition allApprovedForSession :: "ApprovalKey list \<Rightarrow> ApprovalStore \<Rightarrow> bool" where
  "allApprovedForSession keys store =
     (if length keys = 0 then False
      else list_all (\<lambda>key. get key store = Some ApprovedForSession) keys)"

definition putAll :: "ApprovalKey list \<Rightarrow> ReviewDecision \<Rightarrow> ApprovalStore \<Rightarrow> ApprovalStore" where
  "putAll keys decision store =
     (if decision = ApprovedForSession \<or> decision = Abort
      then fold (\<lambda>key. put key decision) keys store
      else store)"

definition clear :: "ApprovalStore \<Rightarrow> ApprovalStore" where
  "clear store = []"

definition size_ApprovalStore :: "ApprovalStore \<Rightarrow> nat" where
  "size_ApprovalStore store = length store"

definition getDebugInfo :: "ApprovalStore \<Rightarrow> nat \<times> string list" where
  "getDebugInfo store = (length store, map fst store)"

definition createExecApprovalKey :: "ExecCommand \<Rightarrow> string option \<Rightarrow> ApprovalKey" where
  "createExecApprovalKey command cwd = ExecApprovalKey command cwd"

definition createPatchApprovalKey :: "string list \<Rightarrow> ApprovalKey" where
  "createPatchApprovalKey files = PatchApprovalKey files"

section \<open>The ACP approval store (ApprovalStore.ts)\<close>

text \<open>
  \<^verbatim>\<open>rawInput\<close> is an open bag of fields; \<^verbatim>\<open>serializeKey\<close> reads \<^verbatim>\<open>command\<close>, \<^verbatim>\<open>path\<close> and
  \<^verbatim>\<open>file_path\<close> only. They are modelled as optional strings (a missing field is \<open>None\<close>,
  and the empty string is falsy); every other field, \<^verbatim>\<open>description\<close> among them, is
  never read.
\<close>

record AcpRawInput =
  raw_command :: "string option"
  raw_description :: "string option"
  raw_path :: "string option"
  raw_file_path :: "string option"

record AcpApprovalKey =
  acp_kind :: string
  acp_title :: string
  acp_rawInput :: "AcpRawInput option"

definition field :: "string \<Rightarrow> string option \<Rightarrow> (string \<times> json) list" where
  "field name value =
     (case value of None \<Rightarrow> [] | Some v \<Rightarrow> (if v = [] then [] else [(name, JStr v)]))"

definition normalizedInput :: "AcpRawInput option \<Rightarrow> (string \<times> json) list" where
  "normalizedInput rawInput =
     (case rawInput of
        None \<Rightarrow> []
      | Some r \<Rightarrow>
          field ''command'' (raw_command r) @
          field ''path'' (raw_path r) @
          field ''file_path'' (raw_file_path r))"

definition Acp_serializeKey :: "AcpApprovalKey \<Rightarrow> string" where
  "Acp_serializeKey key =
     stringify (JObj [(''kind'', JStr (if acp_kind key = [] then ''unknown'' else acp_kind key)),
                      (''title'', JStr (acp_title key)),
                      (''rawInput'', JObj (normalizedInput (acp_rawInput key)))])"

type_synonym AcpApprovalStore = "(string \<times> string) list"

definition Acp_get :: "AcpApprovalKey \<Rightarrow> AcpApprovalStore \<Rightarrow> string option" where
  "Acp_get key store = map_of store (Acp_serializeKey key)"

definition Acp_put :: "AcpApprovalKey \<Rightarrow> string \<Rightarrow> AcpApprovalStore \<Rightarrow> AcpApprovalStore" where
  "Acp_put key optionId store =
     (if optionId = ''allow_always''
      then AList.update (Acp_serializeKey key) optionId store
      else store)"

definition Acp_isApprovedForSession :: "AcpApprovalKey \<Rightarrow> AcpApprovalStore \<Rightarrow> bool" where
  "Acp_isApprovedForSession key store = (Acp_get key store = Some ''allow_always'')"

section \<open>Permission decisions (permission utilities and \<^verbatim>\<open>confirm\<close>)\<close>

text \<open>
  Modelled from the spec: the constant \<^verbatim>\<open>PERMISSION_DECISION_MAP\<close>, which the permission
  utilities and the agent manager import from the module of permission types; that module
  is not among the sources. Its entries are the fixed table of section 4.3, step 3, of the
  spec. The code indexes it (\<^verbatim>\<open>MAP[optionId]\<close>), tests \<^verbatim>\<open>data in MAP\<close> and takes
  \<^verbatim>\<open>keyof typeof MAP\<close>, so it is a plain object with these four own properties.
\<close>

definition PERMISSION_DECISION_MAP :: "(string \<times> string) list" where
  "PERMISSION_DECISION_MAP =
     [(''allow_once'', ''approved''),
      (''allow_always'', ''approved_for_session''),
      (''reject_once'', ''denied''),
      (''reject_always'', ''abort'')]"

text \<open>
  A plain JavaScript object inherits the members of \<^verbatim>\<open>Object.prototype\<close>. Both \<^verbatim>\<open>key in obj\<close>
  and \<^verbatim>\<open>obj[key]\<close> follow the prototype chain, so they find these names as well as the own
  properties. The inherited values are functions (and the prototype object itself for
  \<^verbatim>\<open>__proto__\<close>): none is a string and all are truthy.
\<close>

definition Object_prototype_members :: "string list" where
  "Object_prototype_members =
     [''constructor'', ''hasOwnProperty'', ''isPrototypeOf'', ''propertyIsEnumerable'',
      ''toLocaleString'', ''toString'', ''valueOf'', ''__proto__'',
      ''__defineGetter__'', ''__defineSetter__'', ''__lookupGetter__'', ''__lookupSetter__'']"

datatype jsval = JString string | JMember string

fun isTruthy :: "jsval \<Rightarrow> bool" where
  "isTruthy (JString v) = (v \<noteq> [])"
| "isTruthy (JMember name) = True"

text \<open>\<^verbatim>\<open>key in obj\<close> and \<^verbatim>\<open>obj[key]\<close> (\<open>None\<close> is \<^verbatim>\<open>undefined\<close>) for such an object.\<close>

definition hasProperty :: "(string \<times> string) list \<Rightarrow> string \<Rightarrow> bool" where
  "hasProperty obj key = (key \<in> set (map fst obj) \<or> key \<in> set Object_prototype_members)"

definition getProperty :: "(string \<times> string) list \<Rightarrow> string \<Rightarrow> jsval option" where
  "getProperty obj key =
     (case map_of obj key of
        Some v \<Rightarrow> Some (JString v)
      | None \<Rightarrow> (if key \<in> set Object_prototype_members then Some (JMember key) else None))"

text \<open>A property key that is \<^verbatim>\<open>undefined\<close> reads as the string \<^verbatim>\<open>"undefined"\<close>.\<close>

definition toPropertyKey :: "string option \<Rightarrow> string" where
  "toPropertyKey data = (case data of None \<Rightarrow> ''undefined'' | Some v \<Rightarrow> v)"

definition mapPermissionDecision :: "string \<Rightarrow> jsval" where
  "mapPermissionDecision optionId =
     (case getProperty PERMISSION_DECISION_MAP optionId of
        None \<Rightarrow> JString ''denied''
      | Some v \<Rightarrow> (if isTruthy v then v else JString ''denied''))"

text \<open>
  Lines 520 and 521 of \<^verbatim>\<open>confirm\<close>: the decision key is \<^verbatim>\<open>data\<close> when \<^verbatim>\<open>data in MAP\<close>, else
  \<^verbatim>\<open>'reject_once'\<close>; the decision is \<^verbatim>\<open>mapPermissionDecision\<close> of that key.
\<close>

definition decisionKey :: "string option \<Rightarrow> string" where
  "decisionKey data =
     (if hasProperty PERMISSION_DECISION_MAP (toPropertyKey data)
      then toPropertyKey data else ''reject_once'')"

definition decisionOf :: "string option \<Rightarrow> jsval" where
  "decisionOf data = mapPermissionDecision (decisionKey data)"

definition isApproved :: "jsval \<Rightarrow> bool" where
  "isApproved decision =
     (decision = JString ''approved'' \<or> decision = JString ''approved_for_session'')"

text \<open>Lines 538 to 546 of \<^verbatim>\<open>confirm\<close>: the call id without its channel prefix.\<close>

definition origCallId :: "string \<Rightarrow> string" where
  "origCallId callId =
     (if startsWith callId ''permission_'' then substring callId 11
      else if startsWith callId ''patch_'' then substring callId 6
      else if startsWith callId ''elicitation_'' then substring callId 12
      else if startsWith callId ''exec_'' then substring callId 5
      else callId)"

section \<open>The Codex agent manager (second part of MessageList.tsx)\<close>

subsection \<open>What the manager holds and what it calls\<close>

text \<open>
  A thrown value is an \<^verbatim>\<open>Error\<close> with its message, or some other value, kept as the text that
  \<^verbatim>\<open>String(e)\<close> gives.
\<close>

datatype thrown = Error string | NonError string

text \<open>\<^verbatim>\<open>error instanceof Error ? error.message : String(error)\<close>\<close>

fun messageOf :: "thrown \<Rightarrow> string" where
  "messageOf (Error m) = m"
| "messageOf (NonError v) = v"

text \<open>
  \<^verbatim>\<open>Record<string, FileChange>\<close>: the paths of a patch with their changes, each path once, in
  the order of \<^verbatim>\<open>Object.keys\<close>. The content of a change is not inspected by the manager.
\<close>

type_synonym FileChanges = "(string \<times> string) list"

definition Object_keys :: "FileChanges \<Rightarrow> string list" where
  "Object_keys changes = map fst changes"

text \<open>
  Modelled from the spec: the record that the tool handlers keep for an exec request
  (\<^verbatim>\<open>getExecRequestMeta\<close>; the tool handlers are not among the sources). The manager reads
  its \<^verbatim>\<open>command\<close> and \<^verbatim>\<open>cwd\<close>; \<open>exec_title\<close> and \<open>exec_description\<close> stand for the display
  fields that a permission request carries besides (section 6 of the spec).
\<close>

record ExecRequestMeta =
  exec_command :: ExecCommand
  exec_cwd :: "string option"
  exec_title :: string
  exec_description :: string

text \<open>The payload of the two session events that \<^verbatim>\<open>applyPatchChanges\<close> emits.\<close>

datatype SessionEvent =
    patch_applied string nat "string list"
  | patch_failed string string

text \<open>
  The calls that the manager makes to its collaborators (the base class, the agent and
  its handlers, the message store, the response stream), in the order made. The agent,
  its transport and its pause gate are not among the sources: what the manager does to
  them is the sequence of these calls.
\<close>

datatype call =
    BaseConfirm string string "string option"
  | ApplyBatchChanges FileChanges
  | EmitSessionEvent SessionEvent
  | RespondElicitation string jsval
  | ResolvePermission string bool
  | SetProcessing bool
  | AddMessage string string
  | ProcessFileReferences string "string list option"
  | PrepareFirstMessageWithSkillsIndex string "string option" "string list option"
  | NewSession "string option" string
  | SendPrompt string
  | EmitError string string

text \<open>
  The manager with the state of the agent's handlers that \<^verbatim>\<open>confirm\<close> reads and writes.
  \<open>bootstrap\<close> is the settled outcome of the memoized bootstrap promise: \<open>None\<close> when it
  resolved, the thrown value when it rejected. \<open>approvalStore\<close> is the store of the agent;
  \<open>pendingConfirmations\<close>, \<open>execRequestMeta\<close> and \<open>patchChanges\<close> are the tables of the
  tool handlers, keyed by call id.
\<close>

record CodexAgentManager =
  bootstrap :: "thrown option"
  workspace :: "string option"
  presetContext :: "string option"
  enabledSkills :: "string list option"
  isFirstMessage :: bool
  approvalStore :: ApprovalStore
  pendingConfirmations :: "string list"
  execRequestMeta :: "(string \<times> ExecRequestMeta) list"
  patchChanges :: "(string \<times> FileChanges) list"
  calls :: "call list"

text \<open>The constructor: the latch is initialised to \<^verbatim>\<open>true\<close>, nothing is cached or pending.\<close>

definition newCodexAgentManager ::
  "thrown option \<Rightarrow> string option \<Rightarrow> string option \<Rightarrow> string list option \<Rightarrow> CodexAgentManager"
where
  "newCodexAgentManager outcome ws preset skills =
     \<lparr>bootstrap = outcome, workspace = ws, presetContext = preset, enabledSkills = skills,
      isFirstMessage = True, approvalStore = [], pendingConfirmations = [],
      execRequestMeta = [], patchChanges = [], calls = []\<rparr>"

definition makeCall :: "call \<Rightarrow> CodexAgentManager \<Rightarrow> CodexAgentManager" where
  "makeCall c s = s\<lparr>calls := calls s @ [c]\<rparr>"

text \<open>
  The outcomes of the collaborators' operations that can fail, and the two values the
  manager takes from its surroundings: the files marker (a constant of a module that is
  not among the sources) and the next \<^verbatim>\<open>uuid()\<close>.
\<close>

record Collaborators =
  applyBatchChanges :: "FileChanges \<Rightarrow> thrown option"
  processFileReferences :: "string \<Rightarrow> string list option \<Rightarrow> thrown + string"
  prepareFirstMessageWithSkillsIndex ::
    "string \<Rightarrow> string option \<Rightarrow> string list option \<Rightarrow> thrown + string"
  newSession :: "string option \<Rightarrow> string \<Rightarrow> thrown + string"
  sendPrompt :: "string \<Rightarrow> thrown + string"
  AIONUI_FILES_MARKER :: string
  uuid :: string

subsection \<open>The tool handlers and the agent's store operations\<close>

text \<open>
  Modelled from the spec: \<^verbatim>\<open>removePendingConfirmation\<close>, \<^verbatim>\<open>getExecRequestMeta\<close> and
  \<^verbatim>\<open>getPatchChanges\<close> of the tool handlers (not among the sources), as removal from and
  lookup in the tables by call id. \<^verbatim>\<open>confirm\<close> removes the pending confirmation first and
  reads the patch changes of the same call id afterwards, so the removal leaves the
  other two tables as they are.
\<close>

definition removePendingConfirmation :: "string \<Rightarrow> CodexAgentManager \<Rightarrow> CodexAgentManager" where
  "removePendingConfirmation callId s =
     s\<lparr>pendingConfirmations := removeAll callId (pendingConfirmations s)\<rparr>"

definition getExecRequestMeta :: "string \<Rightarrow> CodexAgentManager \<Rightarrow> ExecRequestMeta option" where
  "getExecRequestMeta callId s = map_of (execRequestMeta s) callId"

definition getPatchChanges :: "string \<Rightarrow> CodexAgentManager \<Rightarrow> FileChanges option" where
  "getPatchChanges callId s = map_of (patchChanges s) callId"

text \<open>
  Modelled from the spec: the agent's \<^verbatim>\<open>storeExecApproval\<close>, \<^verbatim>\<open>storePatchApproval\<close>,
  \<^verbatim>\<open>checkExecApproval\<close>, \<^verbatim>\<open>checkPatchApproval\<close>, \<^verbatim>\<open>checkExecRejection\<close> and
  \<^verbatim>\<open>checkPatchRejection\<close> (the agent class is not among the sources). Following section 4.3
  of the spec, steps 2 and 4, a decision is put under the exec key of the command and
  working directory, or under the patch key of the file list, and a request is looked up
  under the same key.
\<close>

definition storeExecApproval ::
  "ExecCommand \<Rightarrow> string option \<Rightarrow> ReviewDecision \<Rightarrow> ApprovalStore \<Rightarrow> ApprovalStore" where
  "storeExecApproval command cwd decision store =
     put (createExecApprovalKey command cwd) decision store"

definition storePatchApproval ::
  "string list \<Rightarrow> ReviewDecision \<Rightarrow> ApprovalStore \<Rightarrow> ApprovalStore" where
  "storePatchApproval files decision store =
     put (createPatchApprovalKey files) decision store"

definition checkExecApproval :: "ExecCommand \<Rightarrow> string option \<Rightarrow> ApprovalStore \<Rightarrow> bool" where
  "checkExecApproval command cwd store =
     allApprovedForSession [createExecApprovalKey command cwd] store"


definition checkExecRejection :: "ExecCommand \<Rightarrow> string option \<Rightarrow> ApprovalStore \<Rightarrow> bool" where
  "checkExecRejection command cwd store =
     isRejectedForSession (createExecApprovalKey command cwd) store"

definition checkPatchRejection :: "string list \<Rightarrow> ApprovalStore \<Rightarrow> bool" where
  "checkPatchRejection files store =
     isRejectedForSession (createPatchApprovalKey files) store"

subsection \<open>\<^verbatim>\<open>confirm\<close>\<close>

definition storeApprovalDecision ::
  "string \<Rightarrow> ReviewDecision \<Rightarrow> CodexAgentManager \<Rightarrow> CodexAgentManager" where
  "storeApprovalDecision callId decision s =
     (case getExecRequestMeta callId s of
        Some execMeta \<Rightarrow>
          s\<lparr>approvalStore :=
              storeExecApproval (exec_command execMeta) (exec_cwd execMeta) decision
                (approvalStore s)\<rparr>
      | None \<Rightarrow>
          (case getPatchChanges callId s of
             Some changes \<Rightarrow>
               s\<lparr>approvalStore :=
                   storePatchApproval (Object_keys changes) decision (approvalStore s)\<rparr>
           | None \<Rightarrow> s))"

text \<open>
  \<^verbatim>\<open>applyPatchChanges\<close>: \<open>Inr ()\<close> when the batch was applied, \<open>Inl e\<close> when it threw \<open>e\<close>,
  which is thrown again after the \<^verbatim>\<open>patch_failed\<close> event.
\<close>

definition applyPatchChanges ::
  "Collaborators \<Rightarrow> string \<Rightarrow> FileChanges \<Rightarrow> CodexAgentManager
     \<Rightarrow> (thrown + unit) \<times> CodexAgentManager" where
  "applyPatchChanges env callId changes s =
     (let s1 = makeCall (ApplyBatchChanges changes) s in
      case applyBatchChanges env changes of
        None \<Rightarrow>
          (Inr (),
           makeCall (EmitSessionEvent
             (patch_applied callId (length (Object_keys changes)) (Object_keys changes))) s1)
      | Some error \<Rightarrow>
          (Inl error,
           makeCall (EmitSessionEvent (patch_failed callId (messageOf error))) s1))"

text \<open>
  \<^verbatim>\<open>confirm(id, callId, data)\<close> (the parameter \<^verbatim>\<open>id\<close> is written \<open>id'\<close>); \<open>data\<close> is \<open>None\<close>
  when the option id is missing. The function returns \<open>Inl e\<close> when it throws \<open>e\<close>: at
  \<^verbatim>\<open>await this.bootstrap\<close> when the bootstrap rejected, and at
  \<^verbatim>\<open>await this.applyPatchChanges\<close> when applying the changes failed; a throw ends the
  function there. The call of the base class and the two calls to the agent at the end
  are taken to return. One call of \<^verbatim>\<open>confirm\<close> runs from start to end before the next.
\<close>

definition confirm ::
  "Collaborators \<Rightarrow> string \<Rightarrow> string \<Rightarrow> string option \<Rightarrow> CodexAgentManager
     \<Rightarrow> (thrown + unit) \<times> CodexAgentManager" where
  "confirm env id' callId data s =
     (let s1 = makeCall (BaseConfirm id' callId data) s in
      case bootstrap s1 of
        Some e \<Rightarrow> (Inl e, s1)
      | None \<Rightarrow>
          (let s2 = removePendingConfirmation callId s1;
               decision = decisionOf data;
               s3 = (if decision = JString ''approved_for_session''
                     then storeApprovalDecision callId ApprovedForSession s2
                     else if decision = JString ''abort''
                     then storeApprovalDecision callId Abort s2
                     else s2);
               applied = (case getPatchChanges callId s3 of
                            Some changes \<Rightarrow>
                              (if isApproved decision
                               then applyPatchChanges env callId changes s3
                               else (Inr (), s3))
                          | None \<Rightarrow> (Inr (), s3))
           in case fst applied of
                Inl e \<Rightarrow> (Inl e, snd applied)
              | Inr u \<Rightarrow>
                  (Inr (),
                   makeCall (ResolvePermission (origCallId callId) (isApproved decision))
                     (makeCall (RespondElicitation (origCallId callId) decision)
                        (snd applied)))))"

text \<open>\<^verbatim>\<open>autoConfirm(callId, decision)\<close> calls \<^verbatim>\<open>confirm(callId, callId, decision)\<close>.\<close>

definition autoConfirm ::
  "Collaborators \<Rightarrow> string \<Rightarrow> string \<Rightarrow> CodexAgentManager
     \<Rightarrow> (thrown + unit) \<times> CodexAgentManager" where
  "autoConfirm env callId decision s = confirm env callId callId (Some decision) s"

subsection \<open>\<^verbatim>\<open>sendMessage\<close>\<close>

text \<open>
  \<^verbatim>\<open>includes\<close>, \<^verbatim>\<open>split(marker)[0]\<close> for a marker that is not empty, \<^verbatim>\<open>trimEnd\<close> and
  \<^verbatim>\<open>toLowerCase\<close> on the code units 0 to 255.
\<close>

fun includes_str :: "string \<Rightarrow> string \<Rightarrow> bool" where
  "includes_str [] p = (p = [])"
| "includes_str (c # cs) p = (startsWith (c # cs) p \<or> includes_str cs p)"

fun beforeFirst :: "string \<Rightarrow> string \<Rightarrow> string" where
  "beforeFirst [] p = []"
| "beforeFirst (c # cs) p = (if startsWith (c # cs) p then [] else c # beforeFirst cs p)"

definition isWhiteSpace :: "char \<Rightarrow> bool" where
  "isWhiteSpace c = ((of_char c :: nat) \<in> {0x09, 0x0A, 0x0B, 0x0C, 0x0D, 0x20, 0xA0})"

definition trimEnd :: "string \<Rightarrow> string" where
  "trimEnd s = rev (dropWhile isWhiteSpace (rev s))"

definition toLowerCaseChar :: "char \<Rightarrow> char" where
  "toLowerCaseChar c =
     (let n = (of_char c :: nat) in
      if (0x41 \<le> n \<and> n \<le> 0x5A) \<or> (0xC0 \<le> n \<and> n \<le> 0xDE \<and> n \<noteq> 0xD7)
      then char_of (n + 32) else c)"

definition toLowerCase :: "string \<Rightarrow> string" where
  "toLowerCase s = map toLowerCaseChar s"

record SendMessageData =
  content :: string
  files :: "string list option"
  msg_id :: "string option"

definition contentToSend :: "Collaborators \<Rightarrow> SendMessageData \<Rightarrow> string" where
  "contentToSend env data =
     (if includes_str (content data) (AIONUI_FILES_MARKER env)
      then trimEnd (beforeFirst (content data) (AIONUI_FILES_MARKER env))
      else content data)"

text \<open>
  \<^verbatim>\<open>sendMessage\<close> is an async function: a call runs until it reaches an \<^verbatim>\<open>await\<close>, is
  suspended there, and is resumed later; other calls of \<^verbatim>\<open>sendMessage\<close> run in between.
  The points of suspension are its four awaits: of the bootstrap (line 428), of
  \<^verbatim>\<open>prepareFirstMessageWithSkillsIndex\<close> (454), of \<^verbatim>\<open>newSession\<close> (459) and of \<^verbatim>\<open>sendPrompt\<close>
  (467). A stage is the await at which a call is suspended, together with the outcome that
  the awaited promise is going to have (\<open>Inl e\<close> when it rejects with \<open>e\<close>), or \<open>Done\<close> with
  what the call returned or threw.
\<close>

datatype stage =
    AwaitBootstrap
  | AwaitPrepareFirstMessage "thrown + string"
  | AwaitNewSession "thrown + string"
  | AwaitSendPrompt "thrown + string"
  | Done "thrown + string"

text \<open>The text of the error message that the \<^verbatim>\<open>catch\<close> block reports.\<close>

definition errorMessage :: "thrown \<Rightarrow> string" where
  "errorMessage e =
     (case e of
        NonError v \<Rightarrow> ''Failed to send message to Codex''
      | Error m \<Rightarrow>
          (if includes_str m ''timeout''
           then ''Request timed out. Please check your connection and try again.''
           else if includes_str m ''authentication''
           then ''Authentication failed. Please verify your Codex credentials.''
           else if includes_str m ''network''
           then ''Network error. Please check your internet connection.''
           else ''Codex error: '' @ m))"

definition isUsageLimitError :: "thrown \<Rightarrow> bool" where
  "isUsageLimitError e =
     includes_str (toLowerCase (messageOf e)) (''you'' @ [CHR 0x27] @ ''ve hit your usage limit'')"

text \<open>The \<^verbatim>\<open>catch\<close> block (lines 471 to 506); the call ends by throwing \<open>e\<close> again.\<close>

definition catchBlock ::
  "Collaborators \<Rightarrow> SendMessageData \<Rightarrow> thrown \<Rightarrow> CodexAgentManager
     \<Rightarrow> stage \<times> CodexAgentManager" where
  "catchBlock env data e s =
     (let s1 = makeCall (SetProcessing False) s in
      if isUsageLimitError e then (Done (Inl e), s1)
      else (Done (Inl e),
            makeCall
              (EmitError (if truthyString (msg_id data) then orEmpty (msg_id data) else uuid env)
                 (errorMessage e))
              s1))"

text \<open>
  The start of a call: line 426, up to the suspension at \<^verbatim>\<open>await this.bootstrap\<close>.
\<close>

definition startSendMessage :: "CodexAgentManager \<Rightarrow> stage \<times> CodexAgentManager" where
  "startSendMessage s = (AwaitBootstrap, makeCall (SetProcessing True) s)"

text \<open>
  Lines 429 to 470, run when the call is resumed after a bootstrap that resolved, up to
  the next await. The latch is read and cleared in this one piece, which nothing
  interrupts; the call of \<^verbatim>\<open>prepareFirstMessageWithSkillsIndex\<close>, or of \<^verbatim>\<open>sendPrompt\<close>, is
  made in it, and the call is suspended on the promise returned. Storing the user message
  is taken to return; the other collaborators may throw.
\<close>

definition afterBootstrap ::
  "Collaborators \<Rightarrow> SendMessageData \<Rightarrow> CodexAgentManager \<Rightarrow> stage \<times> CodexAgentManager" where
  "afterBootstrap env data s =
     (let s1 = (if truthyString (msg_id data) \<and> content data \<noteq> []
                then makeCall (AddMessage (orEmpty (msg_id data)) (content data)) s
                else s);
          s2 = makeCall (ProcessFileReferences (contentToSend env data) (files data)) s1
      in case processFileReferences env (contentToSend env data) (files data) of
           Inl e \<Rightarrow> catchBlock env data e s2
         | Inr processedContent \<Rightarrow>
             (if isFirstMessage s2
              then
                (AwaitPrepareFirstMessage
                   (prepareFirstMessageWithSkillsIndex env processedContent
                      (presetContext s2) (enabledSkills s2)),
                 makeCall
                   (PrepareFirstMessageWithSkillsIndex processedContent
                      (presetContext s2) (enabledSkills s2))
                   (s2\<lparr>isFirstMessage := False\<rparr>))
              else
                (AwaitSendPrompt (sendPrompt env processedContent),
                 makeCall (SendPrompt processedContent) s2)))"

text \<open>
  Resuming a suspended call: it runs from the await of its stage to the next await, or to
  its end. A promise that rejected throws into the \<^verbatim>\<open>catch\<close> block.
\<close>

definition resumeSendMessage ::
  "Collaborators \<Rightarrow> SendMessageData \<Rightarrow> stage \<Rightarrow> CodexAgentManager
     \<Rightarrow> stage \<times> CodexAgentManager" where
  "resumeSendMessage env data st s =
     (case st of
        AwaitBootstrap \<Rightarrow>
          (case bootstrap s of
             Some e \<Rightarrow> catchBlock env data e s
           | None \<Rightarrow> afterBootstrap env data s)
      | AwaitPrepareFirstMessage outcome \<Rightarrow>
          (case outcome of
             Inl e \<Rightarrow> catchBlock env data e s
           | Inr prepared \<Rightarrow>
               (AwaitNewSession (newSession env (workspace s) prepared),
                makeCall (NewSession (workspace s) prepared) s))
      | AwaitNewSession outcome \<Rightarrow>
          (case outcome of
             Inl e \<Rightarrow> catchBlock env data e s
           | Inr result \<Rightarrow> (Done (Inr result), s))
      | AwaitSendPrompt outcome \<Rightarrow>
          (case outcome of
             Inl e \<Rightarrow> catchBlock env data e s
           | Inr result \<Rightarrow> (Done (Inr result), s))
      | Done result \<Rightarrow> (Done result, s))"

text \<open>
  A session: the manager and the calls of \<^verbatim>\<open>sendMessage\<close> made so far, each with the
  collaborators' outcomes it meets, its argument and its stage. An event is a new call of
  \<^verbatim>\<open>sendMessage\<close>, or the resumption of the call with a given number; calls may be resumed
  in any order, so every interleaving of the calls at their awaits is a run.
\<close>

record SendMessageCall =
  call_env :: Collaborators
  call_data :: SendMessageData
  call_stage :: stage

record Session =
  manager :: CodexAgentManager
  sendMessageCalls :: "SendMessageCall list"

datatype event = SendMessage Collaborators SendMessageData | Resume nat

definition startSession ::
  "thrown option \<Rightarrow> string option \<Rightarrow> string option \<Rightarrow> string list option \<Rightarrow> Session" where
  "startSession outcome ws preset skills =
     \<lparr>manager = newCodexAgentManager outcome ws preset skills, sendMessageCalls = []\<rparr>"

definition step :: "event \<Rightarrow> Session \<Rightarrow> Session" where
  "step ev sys =
     (case ev of
        SendMessage env data \<Rightarrow>
          (let r = startSendMessage (manager sys) in
           \<lparr>manager = snd r,
            sendMessageCalls = sendMessageCalls sys @
              [\<lparr>call_env = env, call_data = data, call_stage = fst r\<rparr>]\<rparr>)
      | Resume n \<Rightarrow>
          (if n < length (sendMessageCalls sys)
           then
             (let t = sendMessageCalls sys ! n;
                  r = resumeSendMessage (call_env t) (call_data t) (call_stage t) (manager sys)
              in \<lparr>manager = snd r,
                  sendMessageCalls = (sendMessageCalls sys)[n := t\<lparr>call_stage := fst r\<rparr>]\<rparr>)
           else sys))"

fun run :: "event list \<Rightarrow> Session \<Rightarrow> Session" where
  "run [] sys = sys"
| "run (ev # evs) sys = run evs (step ev sys)"

section \<open>Notions used to state the properties\<close>

text \<open>
  The calls of a run are classified: the two calls that resolve a permission request at
  the agent (the acknowledgement and the release of the pause gate), and the calls that
  belong to the dispatch of a user message.
\<close>

definition isResolutionCall :: "call \<Rightarrow> bool" where
  "isResolutionCall c =
     (case c of RespondElicitation i d \<Rightarrow> True | ResolvePermission i a \<Rightarrow> True | _ \<Rightarrow> False)"

definition resolutionCalls :: "CodexAgentManager \<Rightarrow> call list" where
  "resolutionCalls s = filter isResolutionCall (calls s)"

definition isSendPrompt :: "call \<Rightarrow> bool" where
  "isSendPrompt c = (case c of SendPrompt p \<Rightarrow> True | _ \<Rightarrow> False)"

definition isNewSession :: "call \<Rightarrow> bool" where
  "isNewSession c = (case c of NewSession w p \<Rightarrow> True | _ \<Rightarrow> False)"

definition isPrepareFirstMessage :: "call \<Rightarrow> bool" where
  "isPrepareFirstMessage c =
     (case c of PrepareFirstMessageWithSkillsIndex p x k \<Rightarrow> True | _ \<Rightarrow> False)"

definition isSessionCall :: "call \<Rightarrow> bool" where
  "isSessionCall c = (isPrepareFirstMessage c \<or> isNewSession c \<or> isSendPrompt c)"

definition sessionCalls :: "CodexAgentManager \<Rightarrow> call list" where
  "sessionCalls s = filter isSessionCall (calls s)"

definition isAwaitingPrepare :: "stage \<Rightarrow> bool" where
  "isAwaitingPrepare st = (case st of AwaitPrepareFirstMessage outcome \<Rightarrow> True | _ \<Rightarrow> False)"

text \<open>
  The invariant of a session. The latch is true exactly as long as no dispatch call was
  made; the first dispatch call is the injection of the preset context and no later one is;
  and the session creations made, together with the calls that are suspended on the
  injection and may still create the session, are at most one, and none before the
  injection.
\<close>

definition sessionInvariant :: "Session \<Rightarrow> bool" where
  "sessionInvariant sys =
     ((isFirstMessage (manager sys) = (sessionCalls (manager sys) = []))
      \<and> (sessionCalls (manager sys) = [] \<or>
           (isPrepareFirstMessage (hd (sessionCalls (manager sys)))
            \<and> list_all (\<lambda>c. isNewSession c \<or> isSendPrompt c) (tl (sessionCalls (manager sys)))))
      \<and> length (filter isNewSession (sessionCalls (manager sys)))
          + length (filter (\<lambda>t. isAwaitingPrepare (call_stage t)) (sendMessageCalls sys))
          \<le> (if sessionCalls (manager sys) = [] then 0 else 1))"

text \<open>The approval store after the cache update of \<^verbatim>\<open>confirm\<close> (lines 526 to 528).\<close>

definition storeAfter :: "string \<Rightarrow> string option \<Rightarrow> CodexAgentManager \<Rightarrow> ApprovalStore" where
  "storeAfter c d s =
     (if decisionOf d = JString ''approved_for_session''
      then approvalStore (storeApprovalDecision c ApprovedForSession s)
      else if decisionOf d = JString ''abort''
      then approvalStore (storeApprovalDecision c Abort s)
      else approvalStore s)"

text \<open>The calls of a patch application that succeeds (lines 531 to 534).\<close>

definition patchCalls :: "string \<Rightarrow> string option \<Rightarrow> CodexAgentManager \<Rightarrow> call list" where
  "patchCalls c d s =
     (case getPatchChanges c s of
        Some ch \<Rightarrow>
          (if isApproved (decisionOf d)
           then [ApplyBatchChanges ch,
                 EmitSessionEvent (patch_applied c (length (Object_keys ch)) (Object_keys ch))]
           else [])
      | None \<Rightarrow> [])"

section \<open>Example states and collaborators\<close>

definition collaboratorsOk :: Collaborators where
  "collaboratorsOk =
     \<lparr>applyBatchChanges = (\<lambda>changes. None),
      processFileReferences = (\<lambda>text fs. Inr text),
      prepareFirstMessageWithSkillsIndex = (\<lambda>text preset skills. Inr text),
      newSession = (\<lambda>ws text. Inr ''session''),
      sendPrompt = (\<lambda>text. Inr ''reply''),
      AIONUI_FILES_MARKER = ''__FILES__'',
      uuid = ''uuid-1''\<rparr>"

definition collaboratorsPatchFails :: Collaborators where
  "collaboratorsPatchFails =
     collaboratorsOk\<lparr>applyBatchChanges := (\<lambda>changes. Some (Error ''EACCES''))\<rparr>"

definition sessionStarted :: CodexAgentManager where
  "sessionStarted = newCodexAgentManager None (Some ''/work'') None None"

text \<open>A patch request \<^verbatim>\<open>patch_7\<close> for two files is pending.\<close>

definition patchRequestPending :: CodexAgentManager where
  "patchRequestPending =
     sessionStarted
       \<lparr>pendingConfirmations := [''patch_7''],
        patchChanges := [(''patch_7'', [(''a.txt'', ''A''), (''b.txt'', ''B'')])]\<rparr>"

text \<open>An exec request \<^verbatim>\<open>exec_3\<close> for \<^verbatim>\<open>rm -rf tmp\<close> in \<^verbatim>\<open>/work\<close> is pending.\<close>

definition removeTmp :: ExecRequestMeta where
  "removeTmp =
     \<lparr>exec_command = CommandArray [''rm'', ''-rf'', ''tmp''], exec_cwd = Some ''/work'',
      exec_title = ''Remove tmp'', exec_description = ''cleanup''\<rparr>"

definition removeTmpRetitled :: ExecRequestMeta where
  "removeTmpRetitled =
     \<lparr>exec_command = CommandArray [''rm'', ''-rf'', ''tmp''], exec_cwd = Some ''/work'',
      exec_title = ''Delete temporary files'', exec_description = ''second attempt''\<rparr>"

definition execRequestPending :: CodexAgentManager where
  "execRequestPending =
     sessionStarted
       \<lparr>pendingConfirmations := [''exec_3''],
        execRequestMeta := [(''exec_3'', removeTmp)]\<rparr>"

text \<open>A permission request \<^verbatim>\<open>permission_9\<close> of another kind is pending.\<close>

definition otherRequestPending :: CodexAgentManager where
  "otherRequestPending = sessionStarted\<lparr>pendingConfirmations := [''permission_9'']\<rparr>"


definition sessionAtStart :: Session where
  "sessionAtStart = startSession None (Some ''/work'') None None"

definition firstMessage :: SendMessageData where
  "firstMessage = \<lparr>content = ''hello'', files = None, msg_id = Some ''m1''\<rparr>"

definition secondMessage :: SendMessageData where
  "secondMessage = \<lparr>content = ''again'', files = None, msg_id = Some ''m2''\<rparr>"

text \<open>
  Two calls of \<^verbatim>\<open>sendMessage\<close>: the second made after the first has returned, and the
  second made while the first is suspended at its first await.
\<close>

definition sendsInTurn :: "event list" where
  "sendsInTurn =
     [SendMessage collaboratorsOk firstMessage, Resume 0, Resume 0, Resume 0,
      SendMessage collaboratorsOk secondMessage, Resume 1, Resume 1]"

definition overlappingMiddle :: Session where
  "overlappingMiddle =
     run [SendMessage collaboratorsOk firstMessage, SendMessage collaboratorsOk secondMessage,
          Resume 0] sessionAtStart"

definition overlappingSends :: "event list" where
  "overlappingSends =
     [SendMessage collaboratorsOk firstMessage, SendMessage collaboratorsOk secondMessage,
      Resume 0, Resume 1, Resume 0, Resume 0, Resume 1]"

section \<open>Properties of the approval store\<close>

lemma get_put_same:
  "get k (put k ApprovedForSession s) = Some ApprovedForSession"
  "get k (put k Abort s) = Some Abort"
  by (simp_all add: get_def put_def update_conv')

lemma put_put_same: "put k d (put k d s) = put k d s"
  by (simp add: put_def update_conv' update_triv)

lemma funpow_put_same: "0 < n \<Longrightarrow> (put k d ^^ n) s = put k d s"
proof (induction n)
  case 0
  then show ?case by simp
next
  case (Suc n)
  show ?case
  proof (cases "n = 0")
    case True
    then show ?thesis by simp
  next
    case False
    with Suc.IH have "(put k d ^^ n) s = put k d s" by simp
    then show ?thesis by (simp add: put_put_same)
  qed
qed

text \<open>
  Claim C1. For every key \<open>k\<close> and every store \<open>s\<close>: after \<open>put k d\<close> with \<open>d\<close> one of
  \<open>approved_for_session\<close> and \<open>abort\<close>, \<open>get k\<close> returns \<open>d\<close>, and repeating the same \<open>put\<close> any
  number of times leaves the store exactly as the first one left it; \<open>put k approved\<close> and
  \<open>put k denied\<close> return the store unchanged, so \<open>get k\<close> keeps its value, which is \<open>None\<close> in
  a store that was just cleared.
\<close>

theorem put_get_cacheable_only:
  "(d = ApprovedForSession \<or> d = Abort \<longrightarrow>
      (\<forall>n. get k ((put k d ^^ Suc n) s) = Some d \<and> (put k d ^^ Suc n) s = put k d s))
   \<and> put k Approved s = s \<and> put k Denied s = s
   \<and> get k (put k Approved s) = get k s \<and> get k (put k Denied s) = get k s
   \<and> get k (put k Approved (clear s)) = None \<and> get k (put k Denied (clear s)) = None"
proof -
  have rep: "(put k d ^^ Suc n) s = put k d s" for n
    using funpow_put_same [of "Suc n" k d s] by simp
  have hit: "d = ApprovedForSession \<or> d = Abort \<Longrightarrow> get k (put k d s) = Some d"
    using get_put_same [of k s] by auto
  have noop: "put k Approved s = s" "put k Denied s = s"
    by (simp_all add: put_def)
  have empty: "get k (clear s) = None"
    by (simp add: get_def clear_def)
  from rep hit have cached:
    "d = ApprovedForSession \<or> d = Abort \<longrightarrow>
       (\<forall>n. get k ((put k d ^^ Suc n) s) = Some d \<and> (put k d ^^ Suc n) s = put k d s)"
    by (simp del: funpow.simps)
  from noop empty have rest:
    "put k Approved s = s \<and> put k Denied s = s
     \<and> get k (put k Approved s) = get k s \<and> get k (put k Denied s) = get k s
     \<and> get k (put k Approved (clear s)) = None \<and> get k (put k Denied (clear s)) = None"
    by (simp add: put_def)
  from cached rest show ?thesis by blast
qed

theorem put_get_cacheable_only_witness:
  "get (PatchApprovalKey [''a.txt''])
       ((put (PatchApprovalKey [''a.txt'']) Abort ^^ Suc (Suc (Suc 0))) []) = Some Abort
   \<and> (put (PatchApprovalKey [''a.txt'']) Abort ^^ Suc (Suc (Suc 0))) []
       = put (PatchApprovalKey [''a.txt'']) Abort []
   \<and> put (PatchApprovalKey [''a.txt'']) Denied [] = []"
proof -
  have "Abort = ApprovedForSession \<or> Abort = Abort" by simp
  with put_get_cacheable_only [of Abort "PatchApprovalKey [''a.txt'']" "[]"]
  have "(\<forall>n. get (PatchApprovalKey [''a.txt''])
               ((put (PatchApprovalKey [''a.txt'']) Abort ^^ Suc n) []) = Some Abort
            \<and> (put (PatchApprovalKey [''a.txt'']) Abort ^^ Suc n) []
              = put (PatchApprovalKey [''a.txt'']) Abort [])
        \<and> put (PatchApprovalKey [''a.txt'']) Denied [] = []"
    by blast
  then show ?thesis by blast
qed

lemma allApprovedForSession_iff:
  "allApprovedForSession keys store \<longleftrightarrow>
     keys \<noteq> [] \<and> (\<forall>key \<in> set keys. get key store = Some ApprovedForSession)"
  by (cases keys) (simp_all add: allApprovedForSession_def list_all_iff)

text \<open>
  Claim C6. \<open>allApprovedForSession keys\<close> is true exactly when \<open>keys\<close> is not empty and
  \<open>get\<close> returns \<open>approved_for_session\<close> for every key of \<open>keys\<close>; on the empty list it is
  false, whatever the store holds.
\<close>

theorem allApprovedForSession_nonempty_and_all:
  "(allApprovedForSession keys store \<longleftrightarrow>
      keys \<noteq> [] \<and> (\<forall>key \<in> set keys. get key store = Some ApprovedForSession))
   \<and> \<not> allApprovedForSession [] store"
  using allApprovedForSession_iff [of keys store] allApprovedForSession_iff [of "[]" store]
  by simp

theorem allApprovedForSession_nonempty_and_all_witness:
  "allApprovedForSession [PatchApprovalKey [''a.txt''], PatchApprovalKey [''b.txt'']]
     (putAll [PatchApprovalKey [''a.txt''], PatchApprovalKey [''b.txt'']] ApprovedForSession [])
   \<and> \<not> allApprovedForSession [PatchApprovalKey [''a.txt''], PatchApprovalKey [''c.txt'']]
     (putAll [PatchApprovalKey [''a.txt''], PatchApprovalKey [''b.txt'']] ApprovedForSession [])
   \<and> \<not> allApprovedForSession []
     (putAll [PatchApprovalKey [''a.txt''], PatchApprovalKey [''b.txt'']] ApprovedForSession [])"
  using
    allApprovedForSession_nonempty_and_all
      [of "[PatchApprovalKey [''a.txt''], PatchApprovalKey [''b.txt'']]"
          "putAll [PatchApprovalKey [''a.txt''], PatchApprovalKey [''b.txt'']] ApprovedForSession []"]
    allApprovedForSession_nonempty_and_all
      [of "[PatchApprovalKey [''a.txt''], PatchApprovalKey [''c.txt'']]"
          "putAll [PatchApprovalKey [''a.txt''], PatchApprovalKey [''b.txt'']] ApprovedForSession []"]
  by (simp add: putAll_def put_def get_def QuoteJSONString_def QuoteJSONChar_def)

lemma sort_permutation: "mset xs = mset ys \<Longrightarrow> sort xs = sort (ys :: string list)"
  by (metis properties_for_sort sorted_sort mset_sort)

lemma serializeKey_patch_permutation:
  "mset xs = mset ys \<Longrightarrow>
   serializeKey (createPatchApprovalKey xs) = serializeKey (createPatchApprovalKey ys)"
  by (simp add: createPatchApprovalKey_def sort_permutation [of xs ys])



section \<open>The ACP store beside the Codex store\<close>

text \<open>
  The ACP store is a sibling of the Codex store with another vocabulary and another key:
  it caches the option id \<^verbatim>\<open>allow_always\<close> only, and its key contains the kind and the
  title of the tool call, but not the description.
\<close>

lemma Acp_put_get:
  "Acp_get k (Acp_put k ''allow_always'' s) = Some ''allow_always''"
  "optionId \<noteq> ''allow_always'' \<Longrightarrow> Acp_put k optionId s = s"
  by (simp_all add: Acp_get_def Acp_put_def update_conv')

lemma Acp_serializeKey_ignores_description:
  "Acp_serializeKey (k\<lparr>acp_rawInput := Some (r\<lparr>raw_description := d\<rparr>)\<rparr>)
     = Acp_serializeKey (k\<lparr>acp_rawInput := Some r\<rparr>)"
  by (simp add: Acp_serializeKey_def normalizedInput_def)

lemma Acp_serializeKey_keeps_title:
  "Acp_serializeKey \<lparr>acp_kind = ''execute'', acp_title = ''List files'',
       acp_rawInput = Some \<lparr>raw_command = Some ''ls'', raw_description = None,
                             raw_path = None, raw_file_path = None\<rparr>\<rparr>
   \<noteq> Acp_serializeKey \<lparr>acp_kind = ''execute'', acp_title = ''Show files'',
       acp_rawInput = Some \<lparr>raw_command = Some ''ls'', raw_description = None,
                             raw_path = None, raw_file_path = None\<rparr>\<rparr>"
  by (simp add: Acp_serializeKey_def normalizedInput_def field_def QuoteJSONString_def
      QuoteJSONChar_def)

section \<open>Properties of the permission decision and of the call id\<close>

lemma mapPermissionDecision_table:
  "mapPermissionDecision ''allow_once'' = JString ''approved''"
  "mapPermissionDecision ''allow_always'' = JString ''approved_for_session''"
  "mapPermissionDecision ''reject_once'' = JString ''denied''"
  "mapPermissionDecision ''reject_always'' = JString ''abort''"
  by (simp_all add: mapPermissionDecision_def getProperty_def PERMISSION_DECISION_MAP_def)

lemma decisionOf_table:
  "decisionOf (Some ''allow_once'') = JString ''approved''"
  "decisionOf (Some ''allow_always'') = JString ''approved_for_session''"
  "decisionOf (Some ''reject_once'') = JString ''denied''"
  "decisionOf (Some ''reject_always'') = JString ''abort''"
  by (simp_all add: decisionOf_def decisionKey_def toPropertyKey_def hasProperty_def
      mapPermissionDecision_table PERMISSION_DECISION_MAP_def)

text \<open>
  An option id that is neither in the table nor the name of an inherited member is
  resolved to \<open>denied\<close>, and so is a missing one.
\<close>

lemma decisionOf_unknown:
  assumes "toPropertyKey data \<notin> set Object_prototype_members"
    and "toPropertyKey data \<notin> {''allow_once'', ''allow_always'', ''reject_once'', ''reject_always''}"
  shows "decisionOf data = JString ''denied''"
proof -
  from assms have "\<not> hasProperty PERMISSION_DECISION_MAP (toPropertyKey data)"
    by (simp add: hasProperty_def PERMISSION_DECISION_MAP_def)
  then have "decisionKey data = ''reject_once''"
    by (simp add: decisionKey_def)
  then show ?thesis
    by (simp add: decisionOf_def mapPermissionDecision_table)
qed

lemma decisionOf_missing: "decisionOf None = JString ''denied''"
  by (rule decisionOf_unknown) (simp_all add: toPropertyKey_def Object_prototype_members_def)

text \<open>The name of an inherited member is resolved to that member.\<close>

lemma decisionOf_inherited:
  assumes "k \<in> set Object_prototype_members"
  shows "decisionOf (Some k) = JMember k"
proof -
  from assms have own: "map_of PERMISSION_DECISION_MAP k = None"
    by (auto simp add: PERMISSION_DECISION_MAP_def Object_prototype_members_def)
  from assms have "decisionKey (Some k) = k"
    by (simp add: decisionKey_def hasProperty_def toPropertyKey_def)
  with assms own show ?thesis
    by (simp add: decisionOf_def mapPermissionDecision_def getProperty_def)
qed

text \<open>
  Claim C7, at the option id \<^verbatim>\<open>toString\<close>. The claim says that every unknown option id is
  resolved to \<open>denied\<close>. The name of a member that the table inherits from
  \<^verbatim>\<open>Object.prototype\<close> passes the test \<^verbatim>\<open>data in PERMISSION_DECISION_MAP\<close>, the lookup returns
  the inherited member, which is truthy, and the fallback to \<open>denied\<close> is not taken: the
  decision of \<^verbatim>\<open>confirm\<close> is that member, not \<open>denied\<close>. The same holds for
  \<^verbatim>\<open>mapPermissionDecision\<close> alone, here at \<^verbatim>\<open>constructor\<close>.
\<close>

theorem decisionOf_inherited_member:
  "decisionOf (Some ''toString'') = JMember ''toString''
   \<and> decisionOf (Some ''toString'') \<noteq> JString ''denied''
   \<and> mapPermissionDecision ''constructor'' = JMember ''constructor''
   \<and> mapPermissionDecision ''constructor'' \<noteq> JString ''denied''"
  by (simp add: decisionOf_def decisionKey_def toPropertyKey_def hasProperty_def
      mapPermissionDecision_def getProperty_def PERMISSION_DECISION_MAP_def
      Object_prototype_members_def)

lemma startsWith_split: "startsWith c p \<Longrightarrow> length p = n \<Longrightarrow> p @ substring c n = c"
  unfolding startsWith_def substring_def by (metis append_take_drop_id)

lemma origCallId_prefixed:
  "origCallId (''permission_'' @ r) = r"
  "origCallId (''patch_'' @ r) = r"
  "origCallId (''elicitation_'' @ r) = r"
  "origCallId (''exec_'' @ r) = r"
  by (simp_all add: origCallId_def startsWith_def substring_def)

lemma origCallId_unprefixed:
  "\<not> startsWith c ''permission_'' \<Longrightarrow> \<not> startsWith c ''patch_'' \<Longrightarrow>
   \<not> startsWith c ''elicitation_'' \<Longrightarrow> \<not> startsWith c ''exec_'' \<Longrightarrow> origCallId c = c"
  by (simp add: origCallId_def)

lemma origCallId_remainder:
  "c = origCallId c \<or> c = ''permission_'' @ origCallId c \<or> c = ''patch_'' @ origCallId c
   \<or> c = ''elicitation_'' @ origCallId c \<or> c = ''exec_'' @ origCallId c"
proof -
  consider (perm) "startsWith c ''permission_''"
    | (patch) "\<not> startsWith c ''permission_''" "startsWith c ''patch_''"
    | (elic) "\<not> startsWith c ''permission_''" "\<not> startsWith c ''patch_''"
        "startsWith c ''elicitation_''"
    | (exec) "\<not> startsWith c ''permission_''" "\<not> startsWith c ''patch_''"
        "\<not> startsWith c ''elicitation_''" "startsWith c ''exec_''"
    | (none) "\<not> startsWith c ''permission_''" "\<not> startsWith c ''patch_''"
        "\<not> startsWith c ''elicitation_''" "\<not> startsWith c ''exec_''"
    by blast
  then show ?thesis
  proof cases
    case perm
    have "''permission_'' @ substring c 11 = c" by (rule startsWith_split [OF perm]) simp
    moreover from perm have "origCallId c = substring c 11" by (simp add: origCallId_def)
    ultimately have "c = ''permission_'' @ origCallId c" by simp
    then show ?thesis by blast
  next
    case patch
    have "''patch_'' @ substring c 6 = c" by (rule startsWith_split [OF patch(2)]) simp
    moreover from patch have "origCallId c = substring c 6" by (simp add: origCallId_def)
    ultimately have "c = ''patch_'' @ origCallId c" by simp
    then show ?thesis by blast
  next
    case elic
    have "''elicitation_'' @ substring c 12 = c" by (rule startsWith_split [OF elic(3)]) simp
    moreover from elic have "origCallId c = substring c 12" by (simp add: origCallId_def)
    ultimately have "c = ''elicitation_'' @ origCallId c" by simp
    then show ?thesis by blast
  next
    case exec
    have "''exec_'' @ substring c 5 = c" by (rule startsWith_split [OF exec(4)]) simp
    moreover from exec have "origCallId c = substring c 5" by (simp add: origCallId_def)
    ultimately have "c = ''exec_'' @ origCallId c" by simp
    then show ?thesis by blast
  next
    case none
    then have "origCallId c = c" by (simp add: origCallId_def)
    then show ?thesis by simp
  qed
qed

text \<open>
  Claim C8. A call id that begins with \<^verbatim>\<open>permission_\<close>, \<^verbatim>\<open>patch_\<close>, \<^verbatim>\<open>elicitation_\<close> or
  \<^verbatim>\<open>exec_\<close> is normalized to exactly what follows that prefix, whatever follows (another
  prefix included, which stays); a call id that begins with none of the four is returned
  as it is; and in every case the call id is the result, or one of the four prefixes
  followed by the result.
\<close>

theorem origCallId_strips_one_prefix:
  "origCallId (''permission_'' @ r) = r
   \<and> origCallId (''patch_'' @ r) = r
   \<and> origCallId (''elicitation_'' @ r) = r
   \<and> origCallId (''exec_'' @ r) = r
   \<and> (\<not> startsWith c ''permission_'' \<and> \<not> startsWith c ''patch_''
        \<and> \<not> startsWith c ''elicitation_'' \<and> \<not> startsWith c ''exec_''
        \<longrightarrow> origCallId c = c)
   \<and> (c = origCallId c \<or> c = ''permission_'' @ origCallId c \<or> c = ''patch_'' @ origCallId c
        \<or> c = ''elicitation_'' @ origCallId c \<or> c = ''exec_'' @ origCallId c)"
  using origCallId_prefixed [of r] origCallId_unprefixed [of c] origCallId_remainder [of c]
  by blast

theorem origCallId_strips_one_prefix_witness:
  "origCallId ''permission_patch_1'' = ''patch_1''
   \<and> origCallId ''exec_42'' = ''42''
   \<and> origCallId ''call_42'' = ''call_42''"
proof -
  have none: "\<not> startsWith ''call_42'' ''permission_'' \<and> \<not> startsWith ''call_42'' ''patch_''
        \<and> \<not> startsWith ''call_42'' ''elicitation_'' \<and> \<not> startsWith ''call_42'' ''exec_''"
    by (simp add: startsWith_def)
  from origCallId_strips_one_prefix [of "''patch_1''" "''call_42''"] none
  have a: "origCallId (''permission_'' @ ''patch_1'') = ''patch_1''"
    and c: "origCallId ''call_42'' = ''call_42''"
    by blast+
  from origCallId_strips_one_prefix [of "''42''" "''call_42''"]
  have b: "origCallId (''exec_'' @ ''42'') = ''42''"
    by blast
  from a b c show ?thesis by simp
qed

section \<open>Properties of \<^verbatim>\<open>confirm\<close>\<close>

lemma makeCall_fields [simp]:
  "calls (makeCall c s) = calls s @ [c]"
  "bootstrap (makeCall c s) = bootstrap s"
  "isFirstMessage (makeCall c s) = isFirstMessage s"
  "approvalStore (makeCall c s) = approvalStore s"
  "pendingConfirmations (makeCall c s) = pendingConfirmations s"
  "execRequestMeta (makeCall c s) = execRequestMeta s"
  "patchChanges (makeCall c s) = patchChanges s"
  "workspace (makeCall c s) = workspace s"
  "presetContext (makeCall c s) = presetContext s"
  "enabledSkills (makeCall c s) = enabledSkills s"
  by (simp_all add: makeCall_def)

lemma removePendingConfirmation_fields [simp]:
  "calls (removePendingConfirmation c s) = calls s"
  "bootstrap (removePendingConfirmation c s) = bootstrap s"
  "isFirstMessage (removePendingConfirmation c s) = isFirstMessage s"
  "approvalStore (removePendingConfirmation c s) = approvalStore s"
  "pendingConfirmations (removePendingConfirmation c s) = removeAll c (pendingConfirmations s)"
  "execRequestMeta (removePendingConfirmation c s) = execRequestMeta s"
  "patchChanges (removePendingConfirmation c s) = patchChanges s"
  by (simp_all add: removePendingConfirmation_def)

lemma storeApprovalDecision_fields [simp]:
  "calls (storeApprovalDecision c d s) = calls s"
  "bootstrap (storeApprovalDecision c d s) = bootstrap s"
  "isFirstMessage (storeApprovalDecision c d s) = isFirstMessage s"
  "pendingConfirmations (storeApprovalDecision c d s) = pendingConfirmations s"
  "execRequestMeta (storeApprovalDecision c d s) = execRequestMeta s"
  "patchChanges (storeApprovalDecision c d s) = patchChanges s"
  by (simp_all add: storeApprovalDecision_def split: option.splits)

lemma getPatchChanges_frame [simp]:
  "getPatchChanges c (makeCall x s) = getPatchChanges c s"
  "getPatchChanges c (removePendingConfirmation c' s) = getPatchChanges c s"
  "getPatchChanges c (storeApprovalDecision c' d s) = getPatchChanges c s"
  by (simp_all add: getPatchChanges_def)

lemma getExecRequestMeta_frame [simp]:
  "getExecRequestMeta c (makeCall x s) = getExecRequestMeta c s"
  "getExecRequestMeta c (removePendingConfirmation c' s) = getExecRequestMeta c s"
  "getExecRequestMeta c (storeApprovalDecision c' d s) = getExecRequestMeta c s"
  by (simp_all add: getExecRequestMeta_def)

lemma approvalStore_storeApprovalDecision_frame [simp]:
  "approvalStore (storeApprovalDecision c d (makeCall x s))
     = approvalStore (storeApprovalDecision c d s)"
  "approvalStore (storeApprovalDecision c d (removePendingConfirmation c' s))
     = approvalStore (storeApprovalDecision c d s)"
  by (simp_all add: storeApprovalDecision_def split: option.splits)

lemma applyPatchChanges_ok:
  "applyBatchChanges env ch = None \<Longrightarrow>
   applyPatchChanges env c ch s =
     (Inr (),
      makeCall (EmitSessionEvent (patch_applied c (length (Object_keys ch)) (Object_keys ch)))
        (makeCall (ApplyBatchChanges ch) s))"
  by (simp add: applyPatchChanges_def)

lemma applyPatchChanges_fails:
  "applyBatchChanges env ch = Some e \<Longrightarrow>
   applyPatchChanges env c ch s =
     (Inl e,
      makeCall (EmitSessionEvent (patch_failed c (messageOf e)))
        (makeCall (ApplyBatchChanges ch) s))"
  by (simp add: applyPatchChanges_def)

lemma applyPatchChanges_approvalStore:
  "approvalStore (snd (applyPatchChanges env c ch s)) = approvalStore s"
  by (cases "applyBatchChanges env ch") (simp_all add: applyPatchChanges_def)

lemma confirm_bootstrap_rejected:
  "bootstrap s = Some e \<Longrightarrow> confirm env i c d s = (Inl e, makeCall (BaseConfirm i c d) s)"
  by (simp add: confirm_def Let_def)

text \<open>
  A call of \<^verbatim>\<open>confirm\<close> that meets no failure: it returns, and its last two calls are the
  acknowledgement and then the release of the gate, both for the normalized call id.
\<close>

lemma confirm_completes:
  assumes "bootstrap s = None"
    and "\<And>ch. getPatchChanges c s = Some ch \<Longrightarrow> applyBatchChanges env ch = None"
  shows "fst (confirm env i c d s) = Inr ()"
    and "calls (snd (confirm env i c d s)) =
           calls s @ [BaseConfirm i c d] @ patchCalls c d s @
           [RespondElicitation (origCallId c) (decisionOf d),
            ResolvePermission (origCallId c) (isApproved (decisionOf d))]"
    and "pendingConfirmations (snd (confirm env i c d s)) = removeAll c (pendingConfirmations s)"
  using assms
  by (auto simp add: confirm_def Let_def patchCalls_def applyPatchChanges_ok
      split: option.splits)

lemma confirm_patch_fails:
  assumes "bootstrap s = None"
    and "getPatchChanges c s = Some ch"
    and "isApproved (decisionOf d)"
    and "applyBatchChanges env ch = Some e"
  shows "fst (confirm env i c d s) = Inl e"
    and "calls (snd (confirm env i c d s)) =
           calls s @ [BaseConfirm i c d, ApplyBatchChanges ch,
                      EmitSessionEvent (patch_failed c (messageOf e))]"
  using assms
  by (auto simp add: confirm_def Let_def applyPatchChanges_fails split: option.splits)


lemma confirm_approvalStore:
  "bootstrap s = None \<Longrightarrow> approvalStore (snd (confirm env i c d s)) = storeAfter c d s"
  by (auto simp add: confirm_def Let_def storeAfter_def applyPatchChanges_approvalStore
      split: option.splits sum.splits)

lemma resolutionCalls_append:
  "filter isResolutionCall (xs @ ys) = filter isResolutionCall xs @ filter isResolutionCall ys"
  by simp

lemma isResolutionCall_simps [simp]:
  "isResolutionCall (RespondElicitation x v)"
  "isResolutionCall (ResolvePermission x b)"
  "\<not> isResolutionCall (BaseConfirm i c d)"
  "\<not> isResolutionCall (ApplyBatchChanges ch)"
  "\<not> isResolutionCall (EmitSessionEvent ev)"
  by (simp_all add: isResolutionCall_def)

lemma resolutionCalls_patchCalls [simp]: "filter isResolutionCall (patchCalls c d s) = []"
  by (simp add: patchCalls_def split: option.splits)


text \<open>
  Claim C2, at an approval whose patch cannot be applied. The claim says that the
  acknowledgement and the release of the gate happen for every terminal decision, also
  when the file changes fail to apply. For the pending patch request \<^verbatim>\<open>patch_7\<close>, decided
  with \<^verbatim>\<open>allow_once\<close>, when applying the batch throws: \<^verbatim>\<open>confirm\<close> emits \<^verbatim>\<open>patch_failed\<close> and
  throws the same error, and it has called neither \<^verbatim>\<open>respondElicitation\<close> nor
  \<^verbatim>\<open>resolvePermission\<close>.
\<close>

theorem confirm_apply_failure_skips_resolution:
  "fst (confirm collaboratorsPatchFails ''m1'' ''patch_7'' (Some ''allow_once'')
          patchRequestPending) = Inl (Error ''EACCES'')
   \<and> calls (snd (confirm collaboratorsPatchFails ''m1'' ''patch_7'' (Some ''allow_once'')
          patchRequestPending))
     = [BaseConfirm ''m1'' ''patch_7'' (Some ''allow_once''),
        ApplyBatchChanges [(''a.txt'', ''A''), (''b.txt'', ''B'')],
        EmitSessionEvent (patch_failed ''patch_7'' ''EACCES'')]
   \<and> resolutionCalls (snd (confirm collaboratorsPatchFails ''m1'' ''patch_7''
          (Some ''allow_once'') patchRequestPending)) = []"
proof -
  have b: "bootstrap patchRequestPending = None"
    by (simp add: patchRequestPending_def sessionStarted_def newCodexAgentManager_def)
  have p: "getPatchChanges ''patch_7'' patchRequestPending
             = Some [(''a.txt'', ''A''), (''b.txt'', ''B'')]"
    by (simp add: getPatchChanges_def patchRequestPending_def)
  have a: "isApproved (decisionOf (Some ''allow_once''))"
    by (simp add: decisionOf_table isApproved_def)
  have f: "applyBatchChanges collaboratorsPatchFails [(''a.txt'', ''A''), (''b.txt'', ''B'')]
             = Some (Error ''EACCES'')"
    by (simp add: collaboratorsPatchFails_def)
  have c0: "calls patchRequestPending = []"
    by (simp add: patchRequestPending_def sessionStarted_def newCodexAgentManager_def)
  from confirm_patch_fails [OF b p a f, where i = "''m1''"] c0
  show ?thesis by (simp add: resolutionCalls_def)
qed

lemma fixtures_bootstrap [simp]:
  "bootstrap sessionStarted = None"
  "bootstrap patchRequestPending = None"
  "bootstrap execRequestPending = None"
  "bootstrap otherRequestPending = None"
  by (simp_all add: sessionStarted_def patchRequestPending_def execRequestPending_def
      otherRequestPending_def newCodexAgentManager_def)

lemma fixtures_calls [simp]:
  "calls sessionStarted = []"
  "calls patchRequestPending = []"
  "calls execRequestPending = []"
  "calls otherRequestPending = []"
  by (simp_all add: sessionStarted_def patchRequestPending_def execRequestPending_def
      otherRequestPending_def newCodexAgentManager_def)

lemma fixtures_patchChanges [simp]:
  "getPatchChanges c sessionStarted = None"
  "getPatchChanges c execRequestPending = None"
  "getPatchChanges c otherRequestPending = None"
  "getPatchChanges ''patch_7'' patchRequestPending = Some [(''a.txt'', ''A''), (''b.txt'', ''B'')]"
  by (simp_all add: getPatchChanges_def sessionStarted_def patchRequestPending_def
      execRequestPending_def otherRequestPending_def newCodexAgentManager_def)

lemma fixtures_execRequestMeta [simp]:
  "getExecRequestMeta c sessionStarted = None"
  "getExecRequestMeta c patchRequestPending = None"
  "getExecRequestMeta c otherRequestPending = None"
  "getExecRequestMeta ''exec_3'' execRequestPending = Some removeTmp"
  by (simp_all add: getExecRequestMeta_def sessionStarted_def patchRequestPending_def
      execRequestPending_def otherRequestPending_def newCodexAgentManager_def)

lemma fixtures_approvalStore [simp]:
  "approvalStore sessionStarted = []"
  "approvalStore patchRequestPending = []"
  "approvalStore execRequestPending = []"
  by (simp_all add: sessionStarted_def patchRequestPending_def execRequestPending_def
      newCodexAgentManager_def)

lemma origCallId_examples [simp]:
  "origCallId ''permission_9'' = ''9''"
  "origCallId ''exec_3'' = ''3''"
  "origCallId ''patch_7'' = ''7''"
  using origCallId_prefixed(1) [of "''9''"] origCallId_prefixed(4) [of "''3''"]
    origCallId_prefixed(2) [of "''7''"]
  by simp_all




lemma patchCalls_cong:
  "getPatchChanges c s' = getPatchChanges c s \<Longrightarrow> patchCalls c d s' = patchCalls c d s"
  by (simp add: patchCalls_def)



lemma checkExecApproval_after_store:
  "checkExecApproval command cwd (storeExecApproval command cwd ApprovedForSession store)"
  by (simp add: checkExecApproval_def storeExecApproval_def allApprovedForSession_def
      get_put_same)


lemma confirm_allow_always_exec:
  assumes "bootstrap s = None" and "getExecRequestMeta c s = Some m"
  shows "approvalStore (snd (confirm env i c (Some ''allow_always'') s))
           = storeExecApproval (exec_command m) (exec_cwd m) ApprovedForSession (approvalStore s)"
  using assms
  by (simp add: confirm_approvalStore storeAfter_def decisionOf_table
      storeApprovalDecision_def)



text \<open>
  Claim C4. The exec key is built from the command and the working directory of the
  request and from nothing else: two exec requests with the same command and working
  directory, whatever their titles and descriptions, give the same serialized key, so
  \<open>get\<close> answers the same for both in every store, and changing the title and the
  description of a request does not change its key. In particular, once \<^verbatim>\<open>confirm\<close> has
  handled \<^verbatim>\<open>allow_always\<close> for the first request, the second is found approved for the
  session.
\<close>

theorem exec_key_ignores_title_and_description:
  "\<lbrakk>exec_command m1 = exec_command m2; exec_cwd m1 = exec_cwd m2\<rbrakk>
   \<Longrightarrow> serializeKey (createExecApprovalKey (exec_command m1) (exec_cwd m1))
       = serializeKey (createExecApprovalKey (exec_command m2) (exec_cwd m2))
     \<and> get (createExecApprovalKey (exec_command m1) (exec_cwd m1)) store
       = get (createExecApprovalKey (exec_command m2) (exec_cwd m2)) store
     \<and> createExecApprovalKey
         (exec_command (m1\<lparr>exec_title := t, exec_description := d\<rparr>))
         (exec_cwd (m1\<lparr>exec_title := t, exec_description := d\<rparr>))
       = createExecApprovalKey (exec_command m1) (exec_cwd m1)
     \<and> (bootstrap s = None \<and> getExecRequestMeta c s = Some m1 \<longrightarrow>
          checkExecApproval (exec_command m2) (exec_cwd m2)
            (approvalStore (snd (confirm env i c (Some ''allow_always'') s))))"
proof -
  assume same: "exec_command m1 = exec_command m2" "exec_cwd m1 = exec_cwd m2"
  have "bootstrap s = None \<and> getExecRequestMeta c s = Some m1 \<longrightarrow>
          checkExecApproval (exec_command m2) (exec_cwd m2)
            (approvalStore (snd (confirm env i c (Some ''allow_always'') s)))"
  proof
    assume "bootstrap s = None \<and> getExecRequestMeta c s = Some m1"
    then have "approvalStore (snd (confirm env i c (Some ''allow_always'') s))
           = storeExecApproval (exec_command m1) (exec_cwd m1) ApprovedForSession (approvalStore s)"
      by (simp add: confirm_allow_always_exec)
    with same show "checkExecApproval (exec_command m2) (exec_cwd m2)
            (approvalStore (snd (confirm env i c (Some ''allow_always'') s)))"
      by (simp add: checkExecApproval_after_store)
  qed
  with same show ?thesis by simp
qed

theorem exec_key_ignores_title_and_description_witness:
  "exec_title removeTmp \<noteq> exec_title removeTmpRetitled
   \<and> exec_description removeTmp \<noteq> exec_description removeTmpRetitled
   \<and> serializeKey (createExecApprovalKey (exec_command removeTmp) (exec_cwd removeTmp))
     = serializeKey (createExecApprovalKey (exec_command removeTmpRetitled)
         (exec_cwd removeTmpRetitled))
   \<and> checkExecApproval (exec_command removeTmpRetitled) (exec_cwd removeTmpRetitled)
        (approvalStore (snd (confirm collaboratorsOk ''m1'' ''exec_3'' (Some ''allow_always'')
           execRequestPending)))"
proof -
  have c: "exec_command removeTmp = exec_command removeTmpRetitled"
    and w: "exec_cwd removeTmp = exec_cwd removeTmpRetitled"
    by (simp_all add: removeTmp_def removeTmpRetitled_def)
  have t: "exec_title removeTmp \<noteq> exec_title removeTmpRetitled
      \<and> exec_description removeTmp \<noteq> exec_description removeTmpRetitled"
    by (simp add: removeTmp_def removeTmpRetitled_def)
  have h: "bootstrap execRequestPending = None
      \<and> getExecRequestMeta ''exec_3'' execRequestPending = Some removeTmp"
    by simp
  from exec_key_ignores_title_and_description [OF c w, where s = execRequestPending
      and c = "''exec_3''" and env = collaboratorsOk and i = "''m1''"] h t
  show ?thesis by blast
qed



text \<open>
  The two scenarios of the spec for the cache, through \<^verbatim>\<open>confirm\<close>. After \<^verbatim>\<open>allow_always\<close>
  for the exec request, the command is found approved, whatever title a later request
  has; after \<^verbatim>\<open>reject_always\<close> for the patch request, the same files in the other order
  are found rejected, and nothing was applied.
\<close>

lemma scenario_exec_allow_always:
  "checkExecApproval (CommandArray [''rm'', ''-rf'', ''tmp'']) (Some ''/work'')
     (approvalStore (snd (confirm collaboratorsOk ''m1'' ''exec_3'' (Some ''allow_always'')
        execRequestPending)))"
proof -
  have "approvalStore (snd (confirm collaboratorsOk ''m1'' ''exec_3'' (Some ''allow_always'')
          execRequestPending))
        = storeExecApproval (exec_command removeTmp) (exec_cwd removeTmp) ApprovedForSession
            (approvalStore execRequestPending)"
    by (rule confirm_allow_always_exec) simp_all
  then show ?thesis
    by (simp add: removeTmp_def checkExecApproval_after_store)
qed

lemma scenario_patch_reject_always:
  "checkPatchRejection [''b.txt'', ''a.txt'']
     (approvalStore (snd (confirm collaboratorsOk ''m1'' ''patch_7'' (Some ''reject_always'')
        patchRequestPending)))
   \<and> calls (snd (confirm collaboratorsOk ''m1'' ''patch_7'' (Some ''reject_always'')
        patchRequestPending))
     = [BaseConfirm ''m1'' ''patch_7'' (Some ''reject_always''),
        RespondElicitation ''7'' (JString ''abort''), ResolvePermission ''7'' False]"
proof -
  have ok: "\<And>ch. applyBatchChanges collaboratorsOk ch = None"
    by (simp add: collaboratorsOk_def)
  have st: "approvalStore (snd (confirm collaboratorsOk ''m1'' ''patch_7''
              (Some ''reject_always'') patchRequestPending))
            = storePatchApproval [''a.txt'', ''b.txt''] Abort []"
    by (simp add: confirm_approvalStore storeAfter_def decisionOf_table
        storeApprovalDecision_def Object_keys_def)
  have perm: "mset [''a.txt'', ''b.txt''] = mset [''b.txt'', ''a.txt'']"
    by (simp add: add.commute)
  have rej: "checkPatchRejection [''b.txt'', ''a.txt'']
               (storePatchApproval [''a.txt'', ''b.txt''] Abort [])"
    using serializeKey_patch_permutation [OF perm]
    by (simp add: checkPatchRejection_def storePatchApproval_def isRejectedForSession_def
        get_def put_def update_conv')
  have cs: "calls (snd (confirm collaboratorsOk ''m1'' ''patch_7'' (Some ''reject_always'')
              patchRequestPending))
            = calls patchRequestPending @ [BaseConfirm ''m1'' ''patch_7'' (Some ''reject_always'')]
              @ patchCalls ''patch_7'' (Some ''reject_always'') patchRequestPending
              @ [RespondElicitation (origCallId ''patch_7'') (decisionOf (Some ''reject_always'')),
                 ResolvePermission (origCallId ''patch_7'')
                   (isApproved (decisionOf (Some ''reject_always'')))]"
    by (rule confirm_completes(2)) (simp_all add: ok)
  from st rej cs show ?thesis
    by (simp add: patchCalls_def decisionOf_table isApproved_def)
qed

section \<open>Properties of \<^verbatim>\<open>sendMessage\<close>\<close>

lemma isSessionCall_simps [simp]:
  "isSessionCall (PrepareFirstMessageWithSkillsIndex p x k)"
  "isSessionCall (NewSession w p)"
  "isSessionCall (SendPrompt p)"
  "\<not> isSessionCall (SetProcessing b)"
  "\<not> isSessionCall (AddMessage m t)"
  "\<not> isSessionCall (ProcessFileReferences t f)"
  "\<not> isSessionCall (EmitError m t)"
  by (simp_all add: isSessionCall_def isPrepareFirstMessage_def isNewSession_def
      isSendPrompt_def)

lemma call_kind_simps [simp]:
  "isPrepareFirstMessage (PrepareFirstMessageWithSkillsIndex p x k)"
  "\<not> isPrepareFirstMessage (NewSession w p)"
  "\<not> isPrepareFirstMessage (SendPrompt p)"
  "isNewSession (NewSession w p)"
  "\<not> isNewSession (PrepareFirstMessageWithSkillsIndex p x k)"
  "\<not> isNewSession (SendPrompt p)"
  "isSendPrompt (SendPrompt p)"
  by (simp_all add: isPrepareFirstMessage_def isNewSession_def isSendPrompt_def)

lemma isAwaitingPrepare_simps [simp]:
  "\<not> isAwaitingPrepare AwaitBootstrap"
  "isAwaitingPrepare (AwaitPrepareFirstMessage r)"
  "\<not> isAwaitingPrepare (AwaitNewSession r)"
  "\<not> isAwaitingPrepare (AwaitSendPrompt r)"
  "\<not> isAwaitingPrepare (Done r)"
  by (simp_all add: isAwaitingPrepare_def)

lemma sessionCalls_makeCall [simp]:
  "sessionCalls (makeCall c s) = sessionCalls s @ (if isSessionCall c then [c] else [])"
  by (simp add: sessionCalls_def)

lemma sessionCalls_latch [simp]:
  "sessionCalls (s\<lparr>isFirstMessage := b\<rparr>) = sessionCalls s"
  by (simp add: sessionCalls_def)

lemma catchBlock_effect:
  "fst (catchBlock env d e s) = Done (Inl e)"
  "sessionCalls (snd (catchBlock env d e s)) = sessionCalls s"
  "isFirstMessage (snd (catchBlock env d e s)) = isFirstMessage s"
  "workspace (snd (catchBlock env d e s)) = workspace s"
  by (simp_all add: catchBlock_def Let_def)

text \<open>What resuming a call does to the dispatch calls, to the latch and to its stage.\<close>

lemma afterBootstrap_throws:
  assumes "processFileReferences env (contentToSend env d) (files d) = Inl e"
  shows "fst (afterBootstrap env d s) = Done (Inl e)"
    and "sessionCalls (snd (afterBootstrap env d s)) = sessionCalls s"
    and "isFirstMessage (snd (afterBootstrap env d s)) = isFirstMessage s"
  using assms by (simp_all add: afterBootstrap_def Let_def catchBlock_effect)

lemma afterBootstrap_first:
  assumes "processFileReferences env (contentToSend env d) (files d) = Inr pc"
    and "isFirstMessage s"
  shows "fst (afterBootstrap env d s)
           = AwaitPrepareFirstMessage
               (prepareFirstMessageWithSkillsIndex env pc (presetContext s) (enabledSkills s))"
    and "sessionCalls (snd (afterBootstrap env d s))
           = sessionCalls s @
             [PrepareFirstMessageWithSkillsIndex pc (presetContext s) (enabledSkills s)]"
    and "\<not> isFirstMessage (snd (afterBootstrap env d s))"
  using assms by (simp_all add: afterBootstrap_def Let_def)

lemma afterBootstrap_later:
  assumes "processFileReferences env (contentToSend env d) (files d) = Inr pc"
    and "\<not> isFirstMessage s"
  shows "fst (afterBootstrap env d s) = AwaitSendPrompt (sendPrompt env pc)"
    and "sessionCalls (snd (afterBootstrap env d s)) = sessionCalls s @ [SendPrompt pc]"
    and "\<not> isFirstMessage (snd (afterBootstrap env d s))"
  using assms by (simp_all add: afterBootstrap_def Let_def)

lemma resume_prepared:
  "resumeSendMessage env d (AwaitPrepareFirstMessage (Inr p)) s
     = (AwaitNewSession (newSession env (workspace s) p),
        makeCall (NewSession (workspace s) p) s)"
  by (simp add: resumeSendMessage_def)

text \<open>
  The four ways in which resuming a call can change the dispatch calls: not at all; by the
  injection, made by a call that found the latch true; by a prompt, made by a call that
  found the latch false; by the session creation, made by the call that was suspended on
  the injection.
\<close>

lemma resume_summary:
  fixes env d st s
  defines "r \<equiv> resumeSendMessage env d st s"
  shows
    "(sessionCalls (snd r) = sessionCalls s \<and> isFirstMessage (snd r) = isFirstMessage s
        \<and> \<not> isAwaitingPrepare (fst r))
     \<or> (st = AwaitBootstrap \<and> isFirstMessage s \<and> \<not> isFirstMessage (snd r)
          \<and> isAwaitingPrepare (fst r)
          \<and> (\<exists>c. isPrepareFirstMessage c \<and> sessionCalls (snd r) = sessionCalls s @ [c]))
     \<or> (st = AwaitBootstrap \<and> \<not> isFirstMessage s \<and> \<not> isFirstMessage (snd r)
          \<and> \<not> isAwaitingPrepare (fst r)
          \<and> (\<exists>c. isSendPrompt c \<and> sessionCalls (snd r) = sessionCalls s @ [c]))
     \<or> (isAwaitingPrepare st \<and> isFirstMessage (snd r) = isFirstMessage s
          \<and> \<not> isAwaitingPrepare (fst r)
          \<and> (\<exists>c. isNewSession c \<and> sessionCalls (snd r) = sessionCalls s @ [c]))"
proof (cases st)
  case AwaitBootstrap
  show ?thesis
  proof (cases "bootstrap s")
    case (Some e)
    with AwaitBootstrap show ?thesis
      by (simp add: r_def resumeSendMessage_def catchBlock_effect)
  next
    case None
    then have r: "r = afterBootstrap env d s"
      using AwaitBootstrap by (simp add: r_def resumeSendMessage_def)
    show ?thesis
    proof (cases "processFileReferences env (contentToSend env d) (files d)")
      case (Inl e)
      then show ?thesis
        by (simp add: r afterBootstrap_throws)
    next
      case (Inr pc)
      show ?thesis
      proof (cases "isFirstMessage s")
        case True
        with Inr AwaitBootstrap show ?thesis
          by (simp add: r afterBootstrap_first)
      next
        case False
        with Inr AwaitBootstrap show ?thesis
          by (simp add: r afterBootstrap_later)
      qed
    qed
  qed
next
  case (AwaitPrepareFirstMessage outcome)
  then show ?thesis
    by (cases outcome) (simp_all add: r_def resumeSendMessage_def catchBlock_effect)
next
  case (AwaitNewSession outcome)
  then show ?thesis
    by (cases outcome) (simp_all add: r_def resumeSendMessage_def catchBlock_effect)
next
  case (AwaitSendPrompt outcome)
  then show ?thesis
    by (cases outcome) (simp_all add: r_def resumeSendMessage_def catchBlock_effect)
next
  case (Done result)
  then show ?thesis
    by (simp add: r_def resumeSendMessage_def)
qed

lemma count_list_update:
  "n < length xs \<Longrightarrow>
   length (filter P (xs[n := y])) + (if P (xs ! n) then 1 else 0)
     = length (filter P xs) + (if P y then 1 else 0)"
proof (induction xs arbitrary: n)
  case Nil
  then show ?case by simp
next
  case (Cons x xs)
  then show ?case by (cases n) auto
qed

lemma manager_step_Resume:
  "n < length (sendMessageCalls sys) \<Longrightarrow>
   manager (step (Resume n) sys)
     = snd (resumeSendMessage (call_env (sendMessageCalls sys ! n))
              (call_data (sendMessageCalls sys ! n)) (call_stage (sendMessageCalls sys ! n))
              (manager sys))"
  "n < length (sendMessageCalls sys) \<Longrightarrow>
   sendMessageCalls (step (Resume n) sys)
     = (sendMessageCalls sys)
         [n := (sendMessageCalls sys ! n)
            \<lparr>call_stage :=
               fst (resumeSendMessage (call_env (sendMessageCalls sys ! n))
                      (call_data (sendMessageCalls sys ! n))
                      (call_stage (sendMessageCalls sys ! n)) (manager sys))\<rparr>]"
  "\<not> n < length (sendMessageCalls sys) \<Longrightarrow> step (Resume n) sys = sys"
  by (simp_all add: step_def Let_def)

lemma step_SendMessage:
  "manager (step (SendMessage env d) sys) = makeCall (SetProcessing True) (manager sys)"
  "sendMessageCalls (step (SendMessage env d) sys)
     = sendMessageCalls sys @ [\<lparr>call_env = env, call_data = d, call_stage = AwaitBootstrap\<rparr>]"
  by (simp_all add: step_def startSendMessage_def Let_def)

lemma sessionInvariant_step:
  assumes inv: "sessionInvariant sys"
  shows "sessionInvariant (step ev sys)"
proof (cases ev)
  case (SendMessage env d)
  with inv show ?thesis
    by (simp add: sessionInvariant_def step_SendMessage)
next
  case (Resume n)
  show ?thesis
  proof (cases "n < length (sendMessageCalls sys)")
    case False
    with inv Resume show ?thesis
      by (simp add: manager_step_Resume)
  next
    case True
    let ?t = "sendMessageCalls sys ! n"
    let ?r = "resumeSendMessage (call_env ?t) (call_data ?t) (call_stage ?t) (manager sys)"
    let ?P = "\<lambda>t. isAwaitingPrepare (call_stage t)"
    let ?sc = "sessionCalls (manager sys)"
    have m: "manager (step ev sys) = snd ?r"
      using True Resume by (simp add: manager_step_Resume)
    have l: "sendMessageCalls (step ev sys)
               = (sendMessageCalls sys)[n := ?t\<lparr>call_stage := fst ?r\<rparr>]"
      using True Resume by (simp add: manager_step_Resume)
    have cnt: "length (filter ?P (sendMessageCalls (step ev sys)))
                 + (if isAwaitingPrepare (call_stage ?t) then 1 else 0)
               = length (filter ?P (sendMessageCalls sys))
                 + (if isAwaitingPrepare (fst ?r) then 1 else 0)"
      using count_list_update [OF True, of ?P "?t\<lparr>call_stage := fst ?r\<rparr>"]
      by (simp add: l)
    from inv have latch: "isFirstMessage (manager sys) = (?sc = [])"
      and shape: "?sc = [] \<or> (isPrepareFirstMessage (hd ?sc)
            \<and> list_all (\<lambda>c. isNewSession c \<or> isSendPrompt c) (tl ?sc))"
      and bound: "length (filter isNewSession ?sc) + length (filter ?P (sendMessageCalls sys))
            \<le> (if ?sc = [] then 0 else 1)"
      by (simp_all add: sessionInvariant_def)
    from resume_summary [of "call_env ?t" "call_data ?t" "call_stage ?t" "manager sys"]
    consider
      (same) "sessionCalls (snd ?r) = ?sc" "isFirstMessage (snd ?r) = isFirstMessage (manager sys)"
        "\<not> isAwaitingPrepare (fst ?r)"
    | (first) c where "call_stage ?t = AwaitBootstrap" "isFirstMessage (manager sys)"
        "\<not> isFirstMessage (snd ?r)" "isAwaitingPrepare (fst ?r)"
        "isPrepareFirstMessage c" "sessionCalls (snd ?r) = ?sc @ [c]"
    | (later) c where "call_stage ?t = AwaitBootstrap" "\<not> isFirstMessage (manager sys)"
        "\<not> isFirstMessage (snd ?r)" "\<not> isAwaitingPrepare (fst ?r)"
        "isSendPrompt c" "sessionCalls (snd ?r) = ?sc @ [c]"
    | (create) c where "isAwaitingPrepare (call_stage ?t)"
        "isFirstMessage (snd ?r) = isFirstMessage (manager sys)"
        "\<not> isAwaitingPrepare (fst ?r)" "isNewSession c" "sessionCalls (snd ?r) = ?sc @ [c]"
      by blast
    then show ?thesis
    proof cases
      case same
      with latch shape bound cnt show ?thesis
        by (simp add: sessionInvariant_def m split: if_splits)
    next
      case first
      with latch have e: "?sc = []" by simp
      from first have "\<not> isNewSession c"
        by (simp add: isPrepareFirstMessage_def isNewSession_def split: call.splits)
      with first e bound cnt show ?thesis
        by (simp add: sessionInvariant_def m split: if_splits)
    next
      case later
      with latch have ne: "?sc \<noteq> []" by simp
      from later have "\<not> isNewSession c"
        by (simp add: isSendPrompt_def isNewSession_def split: call.splits)
      with later ne shape bound cnt show ?thesis
        by (simp add: sessionInvariant_def m split: if_splits)
    next
      case create
      from create(1) True have "0 < length (filter ?P (sendMessageCalls sys))"
        by (simp add: length_filter_conv_card card_gt_0_iff) blast
      with bound have ne: "?sc \<noteq> []"
        by (auto split: if_splits)
      have n1: "length (filter isNewSession (?sc @ [c])) = length (filter isNewSession ?sc) + 1"
        using create(4) by simp
      have n2: "length (filter ?P (sendMessageCalls (step ev sys))) + 1
                  = length (filter ?P (sendMessageCalls sys))"
        using cnt create(1,3) by simp
      have n3: "length (filter isNewSession ?sc) + length (filter ?P (sendMessageCalls sys)) \<le> 1"
        using bound ne by simp
      from n1 n2 n3 have b': "length (filter isNewSession (?sc @ [c]))
            + length (filter ?P (sendMessageCalls (step ev sys))) \<le> 1"
        by linarith
      have l': "isFirstMessage (snd ?r) = (?sc @ [c] = [])"
        using create(2) latch ne by simp
      have s': "isPrepareFirstMessage (hd (?sc @ [c]))
            \<and> list_all (\<lambda>c. isNewSession c \<or> isSendPrompt c) (tl (?sc @ [c]))"
        using shape ne create(4) by simp
      show ?thesis
        unfolding sessionInvariant_def m create(5)
        using l' s' b' by simp
    qed
  qed
qed

lemma sessionInvariant_run:
  "sessionInvariant sys \<Longrightarrow> sessionInvariant (run evs sys)"
  by (induction evs arbitrary: sys) (simp_all add: sessionInvariant_step)

lemma sessionInvariant_start: "sessionInvariant (startSession outcome ws preset skills)"
  by (simp add: sessionInvariant_def startSession_def newCodexAgentManager_def sessionCalls_def)

lemma latch_stays_step:
  "\<not> isFirstMessage (manager sys) \<Longrightarrow> \<not> isFirstMessage (manager (step ev sys))"
proof (cases ev)
  case (SendMessage env d)
  assume "\<not> isFirstMessage (manager sys)"
  with SendMessage show ?thesis by (simp add: step_SendMessage)
next
  case (Resume n)
  assume no: "\<not> isFirstMessage (manager sys)"
  show ?thesis
  proof (cases "n < length (sendMessageCalls sys)")
    case False
    with no Resume show ?thesis by (simp add: manager_step_Resume)
  next
    case True
    with no Resume
      resume_summary [of "call_env (sendMessageCalls sys ! n)" "call_data (sendMessageCalls sys ! n)"
        "call_stage (sendMessageCalls sys ! n)" "manager sys"]
    show ?thesis by (auto simp add: manager_step_Resume)
  qed
qed

lemma latch_stays_run:
  "\<not> isFirstMessage (manager sys) \<Longrightarrow> \<not> isFirstMessage (manager (run evs sys))"
  by (induction evs arbitrary: sys) (simp_all add: latch_stays_step)

lemma run_append: "run (evs @ evs') sys = run evs' (run evs sys)"
  by (induction evs arbitrary: sys) simp_all

lemma filter_kind_sessionCalls:
  "filter isNewSession (calls s) = filter isNewSession (sessionCalls s)"
  "filter isPrepareFirstMessage (calls s) = filter isPrepareFirstMessage (sessionCalls s)"
proof -
  have "\<And>cs. filter isNewSession (filter isSessionCall cs) = filter isNewSession cs"
    subgoal for cs by (induction cs) (auto simp add: isSessionCall_def)
    done
  then show "filter isNewSession (calls s) = filter isNewSession (sessionCalls s)"
    unfolding sessionCalls_def by simp
  have "\<And>cs. filter isPrepareFirstMessage (filter isSessionCall cs)
               = filter isPrepareFirstMessage cs"
    subgoal for cs by (induction cs) (auto simp add: isSessionCall_def)
    done
  then show "filter isPrepareFirstMessage (calls s) = filter isPrepareFirstMessage (sessionCalls s)"
    unfolding sessionCalls_def by simp
qed

lemma call_kinds_disjoint:
  "isNewSession c \<Longrightarrow> \<not> isPrepareFirstMessage c"
  "isSendPrompt c \<Longrightarrow> \<not> isPrepareFirstMessage c"
  by (cases c; simp add: isPrepareFirstMessage_def isNewSession_def isSendPrompt_def)+

lemma no_prepare_in_rest:
  "list_all (\<lambda>c. isNewSession c \<or> isSendPrompt c) cs \<Longrightarrow> filter isPrepareFirstMessage cs = []"
  by (induction cs) (auto simp add: call_kinds_disjoint)

lemma sessionInvariant_counts:
  assumes "sessionInvariant sys"
  shows "length (filter isPrepareFirstMessage (calls (manager sys))) \<le> 1"
    and "length (filter isNewSession (calls (manager sys))) \<le> 1"
proof -
  let ?sc = "sessionCalls (manager sys)"
  from assms have shape: "?sc = [] \<or> (isPrepareFirstMessage (hd ?sc)
            \<and> list_all (\<lambda>c. isNewSession c \<or> isSendPrompt c) (tl ?sc))"
    and bound: "length (filter isNewSession ?sc) \<le> (if ?sc = [] then 0 else 1)"
    by (simp_all add: sessionInvariant_def)
  show "length (filter isPrepareFirstMessage (calls (manager sys))) \<le> 1"
  proof (cases ?sc)
    case Nil
    then show ?thesis by (simp add: filter_kind_sessionCalls)
  next
    case (Cons c cs)
    with shape have "filter isPrepareFirstMessage cs = []"
      by (simp add: no_prepare_in_rest)
    with Cons show ?thesis by (simp add: filter_kind_sessionCalls)
  qed
  from bound show "length (filter isNewSession (calls (manager sys))) \<le> 1"
    by (simp add: filter_kind_sessionCalls split: if_splits)
qed

lemma step_Resume_bootstrap:
  assumes n: "n < length (sendMessageCalls sys)"
    and t: "sendMessageCalls sys ! n = \<lparr>call_env = env, call_data = d, call_stage = AwaitBootstrap\<rparr>"
    and b: "bootstrap (manager sys) = None"
    and p: "processFileReferences env (contentToSend env d) (files d) = Inr pc"
  shows "isFirstMessage (manager sys) \<Longrightarrow>
           sessionCalls (manager (step (Resume n) sys))
             = sessionCalls (manager sys) @
               [PrepareFirstMessageWithSkillsIndex pc (presetContext (manager sys))
                  (enabledSkills (manager sys))]
           \<and> call_stage (sendMessageCalls (step (Resume n) sys) ! n)
             = AwaitPrepareFirstMessage
                 (prepareFirstMessageWithSkillsIndex env pc (presetContext (manager sys))
                    (enabledSkills (manager sys)))"
    and "\<not> isFirstMessage (manager sys) \<Longrightarrow>
           sessionCalls (manager (step (Resume n) sys))
             = sessionCalls (manager sys) @ [SendPrompt pc]
           \<and> call_stage (sendMessageCalls (step (Resume n) sys) ! n)
             = AwaitSendPrompt (sendPrompt env pc)"
    and "\<not> isFirstMessage (manager (step (Resume n) sys))"
proof -
  have r: "resumeSendMessage env d AwaitBootstrap (manager sys) = afterBootstrap env d (manager sys)"
    using b by (simp add: resumeSendMessage_def)
  show "isFirstMessage (manager sys) \<Longrightarrow>
           sessionCalls (manager (step (Resume n) sys))
             = sessionCalls (manager sys) @
               [PrepareFirstMessageWithSkillsIndex pc (presetContext (manager sys))
                  (enabledSkills (manager sys))]
           \<and> call_stage (sendMessageCalls (step (Resume n) sys) ! n)
             = AwaitPrepareFirstMessage
                 (prepareFirstMessageWithSkillsIndex env pc (presetContext (manager sys))
                    (enabledSkills (manager sys)))"
    using n t r afterBootstrap_first [OF p, of "manager sys"]
    by (simp add: manager_step_Resume)
  show "\<not> isFirstMessage (manager sys) \<Longrightarrow>
           sessionCalls (manager (step (Resume n) sys))
             = sessionCalls (manager sys) @ [SendPrompt pc]
           \<and> call_stage (sendMessageCalls (step (Resume n) sys) ! n)
             = AwaitSendPrompt (sendPrompt env pc)"
    using n t r afterBootstrap_later [OF p, of "manager sys"]
    by (simp add: manager_step_Resume)
  show "\<not> isFirstMessage (manager (step (Resume n) sys))"
    using n t r afterBootstrap_first(3) [OF p, of "manager sys"]
      afterBootstrap_later(3) [OF p, of "manager sys"]
    by (cases "isFirstMessage (manager sys)") (simp_all add: manager_step_Resume)
qed

lemma step_Resume_prepared:
  assumes n: "n < length (sendMessageCalls sys)"
    and t: "sendMessageCalls sys ! n
              = \<lparr>call_env = env, call_data = d, call_stage = AwaitPrepareFirstMessage (Inr p)\<rparr>"
  shows "sessionCalls (manager (step (Resume n) sys))
           = sessionCalls (manager sys) @ [NewSession (workspace (manager sys)) p]
         \<and> call_stage (sendMessageCalls (step (Resume n) sys) ! n)
           = AwaitNewSession (newSession env (workspace (manager sys)) p)
         \<and> isFirstMessage (manager (step (Resume n) sys)) = isFirstMessage (manager sys)"
  using n t by (simp add: manager_step_Resume resume_prepared)

text \<open>
  Claim C9. In a session that starts from the constructor, for every sequence of calls of
  \<^verbatim>\<open>sendMessage\<close> and of resumptions of suspended calls, in any order, and with any outcomes
  of the collaborators:
  the latch is true at the start, and it is true exactly as long as no dispatch call was
  made; the first dispatch call is the injection of the preset and skill context, and all
  later ones are session creations or regular prompts; the injection is made at most once
  and the session-creation call is made at most once; and once the latch is false, it is
  false after any further events. A run extended by one event is the step of that event
  from where the run ended, so what follows about one step holds at every point of a run.

  What one step does, in any state of a session. A call that is resumed after a bootstrap
  that resolved, and whose file references are processed without a throw: if it finds the
  latch true, it makes the injection call with the processed content and is suspended on
  it; if it finds the latch false, it makes the regular prompt call with the processed
  content and is suspended on it; the latch is false afterwards in both cases. A call that
  is resumed after its injection call returned makes the session-creation call with the
  workspace and the prepared content, and leaves the latch as it is. No other step makes a
  dispatch call or changes the latch: not the start of a call, and not the resumption of a
  call after its session-creation call or its prompt call, or of a call that has ended.
\<close>

theorem first_message_latch:
  "isFirstMessage (manager (startSession outcome ws preset skills))
   \<and> (isFirstMessage (manager (run evs (startSession outcome ws preset skills)))
        \<longleftrightarrow> sessionCalls (manager (run evs (startSession outcome ws preset skills))) = [])
   \<and> (sessionCalls (manager (run evs (startSession outcome ws preset skills))) = []
        \<or> (isPrepareFirstMessage
              (hd (sessionCalls (manager (run evs (startSession outcome ws preset skills)))))
            \<and> list_all (\<lambda>c. isNewSession c \<or> isSendPrompt c)
                 (tl (sessionCalls (manager (run evs (startSession outcome ws preset skills)))))))
   \<and> length (filter isPrepareFirstMessage
         (calls (manager (run evs (startSession outcome ws preset skills))))) \<le> 1
   \<and> length (filter isNewSession
         (calls (manager (run evs (startSession outcome ws preset skills))))) \<le> 1
   \<and> (\<not> isFirstMessage (manager (run evs (startSession outcome ws preset skills)))
        \<longrightarrow> \<not> isFirstMessage
              (manager (run (evs @ evs') (startSession outcome ws preset skills))))
   \<and> run (evs @ [ev]) (startSession outcome ws preset skills)
       = step ev (run evs (startSession outcome ws preset skills))
   \<and> (n < length (sendMessageCalls sys)
        \<and> sendMessageCalls sys ! n
            = \<lparr>call_env = env, call_data = d, call_stage = AwaitBootstrap\<rparr>
        \<and> bootstrap (manager sys) = None
        \<and> processFileReferences env (contentToSend env d) (files d) = Inr pc
        \<longrightarrow>
          (if isFirstMessage (manager sys)
           then sessionCalls (manager (step (Resume n) sys))
                  = sessionCalls (manager sys) @
                    [PrepareFirstMessageWithSkillsIndex pc (presetContext (manager sys))
                       (enabledSkills (manager sys))]
                \<and> call_stage (sendMessageCalls (step (Resume n) sys) ! n)
                  = AwaitPrepareFirstMessage
                      (prepareFirstMessageWithSkillsIndex env pc (presetContext (manager sys))
                         (enabledSkills (manager sys)))
           else sessionCalls (manager (step (Resume n) sys))
                  = sessionCalls (manager sys) @ [SendPrompt pc]
                \<and> call_stage (sendMessageCalls (step (Resume n) sys) ! n)
                  = AwaitSendPrompt (sendPrompt env pc))
          \<and> \<not> isFirstMessage (manager (step (Resume n) sys)))
   \<and> (k < length (sendMessageCalls sys')
        \<and> sendMessageCalls sys' ! k
            = \<lparr>call_env = env', call_data = d',
               call_stage = AwaitPrepareFirstMessage (Inr prepared)\<rparr>
        \<longrightarrow>
          sessionCalls (manager (step (Resume k) sys'))
            = sessionCalls (manager sys') @ [NewSession (workspace (manager sys')) prepared]
          \<and> call_stage (sendMessageCalls (step (Resume k) sys') ! k)
            = AwaitNewSession (newSession env' (workspace (manager sys')) prepared)
          \<and> isFirstMessage (manager (step (Resume k) sys')) = isFirstMessage (manager sys'))
   \<and> sessionCalls (manager (step (SendMessage env d) sys)) = sessionCalls (manager sys)
   \<and> isFirstMessage (manager (step (SendMessage env d) sys)) = isFirstMessage (manager sys)
   \<and> sessionCalls (snd (resumeSendMessage env d (AwaitNewSession r) s)) = sessionCalls s
   \<and> isFirstMessage (snd (resumeSendMessage env d (AwaitNewSession r) s)) = isFirstMessage s
   \<and> sessionCalls (snd (resumeSendMessage env d (AwaitSendPrompt r) s)) = sessionCalls s
   \<and> isFirstMessage (snd (resumeSendMessage env d (AwaitSendPrompt r) s)) = isFirstMessage s
   \<and> sessionCalls (snd (resumeSendMessage env d (Done r) s)) = sessionCalls s
   \<and> isFirstMessage (snd (resumeSendMessage env d (Done r) s)) = isFirstMessage s"
proof -
  let ?s0 = "startSession outcome ws preset skills"
  have start: "isFirstMessage (manager ?s0)"
    by (simp add: startSession_def newCodexAgentManager_def)
  have inv: "sessionInvariant (run evs ?s0)"
    by (rule sessionInvariant_run [OF sessionInvariant_start])
  then have latch: "isFirstMessage (manager (run evs ?s0))
        \<longleftrightarrow> sessionCalls (manager (run evs ?s0)) = []"
    and shape: "sessionCalls (manager (run evs ?s0)) = []
        \<or> (isPrepareFirstMessage (hd (sessionCalls (manager (run evs ?s0))))
            \<and> list_all (\<lambda>c. isNewSession c \<or> isSendPrompt c)
                 (tl (sessionCalls (manager (run evs ?s0)))))"
    by (simp_all add: sessionInvariant_def)
  note counts = sessionInvariant_counts [OF inv]
  have stays: "\<not> isFirstMessage (manager (run evs ?s0))
        \<longrightarrow> \<not> isFirstMessage (manager (run (evs @ evs') ?s0))"
    by (simp add: run_append latch_stays_run)
  have snoc: "run (evs @ [ev]) ?s0 = step ev (run evs ?s0)"
    by (simp add: run_append)
  have boot: "n < length (sendMessageCalls sys)
        \<and> sendMessageCalls sys ! n
            = \<lparr>call_env = env, call_data = d, call_stage = AwaitBootstrap\<rparr>
        \<and> bootstrap (manager sys) = None
        \<and> processFileReferences env (contentToSend env d) (files d) = Inr pc
        \<longrightarrow>
          (if isFirstMessage (manager sys)
           then sessionCalls (manager (step (Resume n) sys))
                  = sessionCalls (manager sys) @
                    [PrepareFirstMessageWithSkillsIndex pc (presetContext (manager sys))
                       (enabledSkills (manager sys))]
                \<and> call_stage (sendMessageCalls (step (Resume n) sys) ! n)
                  = AwaitPrepareFirstMessage
                      (prepareFirstMessageWithSkillsIndex env pc (presetContext (manager sys))
                         (enabledSkills (manager sys)))
           else sessionCalls (manager (step (Resume n) sys))
                  = sessionCalls (manager sys) @ [SendPrompt pc]
                \<and> call_stage (sendMessageCalls (step (Resume n) sys) ! n)
                  = AwaitSendPrompt (sendPrompt env pc))
          \<and> \<not> isFirstMessage (manager (step (Resume n) sys))"
    using step_Resume_bootstrap [of n sys env d pc] by (cases "isFirstMessage (manager sys)") simp_all
  have prep: "k < length (sendMessageCalls sys')
        \<and> sendMessageCalls sys' ! k
            = \<lparr>call_env = env', call_data = d',
               call_stage = AwaitPrepareFirstMessage (Inr prepared)\<rparr>
        \<longrightarrow>
          sessionCalls (manager (step (Resume k) sys'))
            = sessionCalls (manager sys') @ [NewSession (workspace (manager sys')) prepared]
          \<and> call_stage (sendMessageCalls (step (Resume k) sys') ! k)
            = AwaitNewSession (newSession env' (workspace (manager sys')) prepared)
          \<and> isFirstMessage (manager (step (Resume k) sys')) = isFirstMessage (manager sys')"
    using step_Resume_prepared [of k sys' env' d' prepared] by blast
  have begin_call:
    "sessionCalls (manager (step (SendMessage env d) sys)) = sessionCalls (manager sys)"
    "isFirstMessage (manager (step (SendMessage env d) sys)) = isFirstMessage (manager sys)"
    by (simp_all add: step_SendMessage)
  have rest:
    "sessionCalls (snd (resumeSendMessage env d (AwaitNewSession r) s)) = sessionCalls s"
    "isFirstMessage (snd (resumeSendMessage env d (AwaitNewSession r) s)) = isFirstMessage s"
    "sessionCalls (snd (resumeSendMessage env d (AwaitSendPrompt r) s)) = sessionCalls s"
    "isFirstMessage (snd (resumeSendMessage env d (AwaitSendPrompt r) s)) = isFirstMessage s"
    "sessionCalls (snd (resumeSendMessage env d (Done r) s)) = sessionCalls s"
    "isFirstMessage (snd (resumeSendMessage env d (Done r) s)) = isFirstMessage s"
    by (simp_all add: resumeSendMessage_def catchBlock_effect split: sum.splits)
  from start latch shape counts stays snoc boot prep begin_call rest show ?thesis
    by (intro conjI)
qed

lemma collaboratorsOk_fields [simp]:
  "processFileReferences collaboratorsOk t fs = Inr t"
  "prepareFirstMessageWithSkillsIndex collaboratorsOk t p k = Inr t"
  "newSession collaboratorsOk w t = Inr ''session''"
  "sendPrompt collaboratorsOk t = Inr ''reply''"
  "applyBatchChanges collaboratorsOk ch = None"
  "AIONUI_FILES_MARKER collaboratorsOk = ''__FILES__''"
  by (simp_all add: collaboratorsOk_def)

lemma message_fields [simp]:
  "content firstMessage = ''hello''" "files firstMessage = None" "msg_id firstMessage = Some ''m1''"
  "content secondMessage = ''again''" "files secondMessage = None"
  "msg_id secondMessage = Some ''m2''"
  by (simp_all add: firstMessage_def secondMessage_def)

lemma contentToSend_examples [simp]:
  "contentToSend collaboratorsOk firstMessage = ''hello''"
  "contentToSend collaboratorsOk secondMessage = ''again''"
  by (simp_all add: contentToSend_def startsWith_def)

lemma sessionAtStart_fields [simp]:
  "sendMessageCalls sessionAtStart = []"
  "calls (manager sessionAtStart) = []"
  "sessionCalls (manager sessionAtStart) = []"
  "bootstrap (manager sessionAtStart) = None"
  "isFirstMessage (manager sessionAtStart)"
  "workspace (manager sessionAtStart) = Some ''/work''"
  "presetContext (manager sessionAtStart) = None"
  "enabledSkills (manager sessionAtStart) = None"
  by (simp_all add: sessionAtStart_def startSession_def newCodexAgentManager_def
      sessionCalls_def)

text \<open>
  Two calls that overlap: both are made, the first is resumed and clears the latch, and
  the second is not resumed yet.
\<close>

lemma overlapping_middle:
  "sendMessageCalls overlappingMiddle
     = [\<lparr>call_env = collaboratorsOk, call_data = firstMessage,
          call_stage = AwaitPrepareFirstMessage (Inr ''hello'')\<rparr>,
        \<lparr>call_env = collaboratorsOk, call_data = secondMessage, call_stage = AwaitBootstrap\<rparr>]"
  "sessionCalls (manager overlappingMiddle)
     = [PrepareFirstMessageWithSkillsIndex ''hello'' None None]"
  "\<not> isFirstMessage (manager overlappingMiddle)"
  "bootstrap (manager overlappingMiddle) = None"
  by (simp_all add: step_def startSendMessage_def resumeSendMessage_def afterBootstrap_def
      Let_def truthyString_def orEmpty_def overlappingMiddle_def)

theorem first_message_latch_witness:
  "sessionCalls (manager (step (Resume 1) overlappingMiddle))
     = [PrepareFirstMessageWithSkillsIndex ''hello'' None None, SendPrompt ''again'']
   \<and> sessionCalls (manager (step (Resume 0) overlappingMiddle))
     = [PrepareFirstMessageWithSkillsIndex ''hello'' None None,
        NewSession (Some ''/work'') ''hello'']
   \<and> \<not> isFirstMessage (manager (run overlappingSends sessionAtStart))
   \<and> sessionCalls (manager (run overlappingSends sessionAtStart))
     = [PrepareFirstMessageWithSkillsIndex ''hello'' None None, SendPrompt ''again'',
        NewSession (Some ''/work'') ''hello'']
   \<and> sessionCalls (manager (run sendsInTurn sessionAtStart))
     = [PrepareFirstMessageWithSkillsIndex ''hello'' None None,
        NewSession (Some ''/work'') ''hello'', SendPrompt ''again'']"
proof -
  let ?mid = "overlappingMiddle"
  note inst = first_message_latch [where outcome = None and ws = "Some ''/work''"
      and preset = None and skills = None
      and evs = "[SendMessage collaboratorsOk firstMessage,
                  SendMessage collaboratorsOk secondMessage, Resume 0]"
      and evs' = "[Resume 1, Resume 0, Resume 0, Resume 1]"
      and n = 1 and sys = "?mid" and env = collaboratorsOk and d = secondMessage
      and pc = "''again''"
      and k = 0 and sys' = "?mid" and env' = collaboratorsOk and d' = firstMessage
      and prepared = "''hello''",
      folded sessionAtStart_def, folded overlappingMiddle_def]
  have h: "1 < length (sendMessageCalls ?mid)
        \<and> sendMessageCalls ?mid ! 1
            = \<lparr>call_env = collaboratorsOk, call_data = secondMessage, call_stage = AwaitBootstrap\<rparr>
        \<and> bootstrap (manager ?mid) = None
        \<and> processFileReferences collaboratorsOk (contentToSend collaboratorsOk secondMessage)
            (files secondMessage) = Inr ''again''"
    by (simp add: overlapping_middle)
  have h': "0 < length (sendMessageCalls ?mid)
        \<and> sendMessageCalls ?mid ! 0
            = \<lparr>call_env = collaboratorsOk, call_data = firstMessage,
               call_stage = AwaitPrepareFirstMessage (Inr ''hello'')\<rparr>"
    by (simp add: overlapping_middle)
  from inst h have a: "sessionCalls (manager (step (Resume 1) ?mid))
     = sessionCalls (manager ?mid) @ [SendPrompt ''again'']"
    by (simp add: overlapping_middle(3))
  from inst h' have a': "sessionCalls (manager (step (Resume 0) ?mid))
     = sessionCalls (manager ?mid) @ [NewSession (workspace (manager ?mid)) ''hello'']"
    by blast
  have w: "workspace (manager ?mid) = Some ''/work''"
    by (simp add: step_def startSendMessage_def resumeSendMessage_def afterBootstrap_def
        Let_def truthyString_def orEmpty_def overlappingMiddle_def)
  from inst have "\<not> isFirstMessage (manager ?mid)
        \<longrightarrow> \<not> isFirstMessage (manager (run
              ([SendMessage collaboratorsOk firstMessage,
                SendMessage collaboratorsOk secondMessage, Resume 0]
               @ [Resume 1, Resume 0, Resume 0, Resume 1]) sessionAtStart))"
    by blast
  then have b: "\<not> isFirstMessage (manager (run overlappingSends sessionAtStart))"
    by (simp add: overlapping_middle(3) overlappingSends_def)
  have c: "sessionCalls (manager (run overlappingSends sessionAtStart))
     = [PrepareFirstMessageWithSkillsIndex ''hello'' None None, SendPrompt ''again'',
        NewSession (Some ''/work'') ''hello'']"
    by (simp add: overlappingSends_def step_def startSendMessage_def resumeSendMessage_def
        afterBootstrap_def Let_def truthyString_def orEmpty_def)
  have d: "sessionCalls (manager (run sendsInTurn sessionAtStart))
     = [PrepareFirstMessageWithSkillsIndex ''hello'' None None,
        NewSession (Some ''/work'') ''hello'', SendPrompt ''again'']"
    by (simp add: sendsInTurn_def step_def startSendMessage_def resumeSendMessage_def
        afterBootstrap_def Let_def truthyString_def orEmpty_def)
  from a a' w b c d show ?thesis
    by (simp add: overlapping_middle(2))
qed

end
